theory Spec2Isabelle
  imports Complex_Main "HOL-Library.Monad_Syntax"
begin

section \<open>Floating-point values of a pandas column\<close>

text \<open>
  A cell of a float64 column is a finite number, plus or minus infinity, or NaN.
  Finite values are idealised as exact reals (no rounding, no signed zero: a zero
  denominator counts as +0); the special values follow the IEEE rules that numpy and
  pandas apply: NaN is absorbing, every comparison with NaN is false, a non-zero finite
  value divided by zero is an infinity and 0/0 is NaN.
\<close>

datatype fl = Fin real | PInf | NInf | NaN

fun fl_neg :: "fl \<Rightarrow> fl" where
  "fl_neg (Fin a) = Fin (- a)"
| "fl_neg PInf = NInf"
| "fl_neg NInf = PInf"
| "fl_neg NaN = NaN"

fun fl_add :: "fl \<Rightarrow> fl \<Rightarrow> fl" where
  "fl_add NaN _ = NaN"
| "fl_add _ NaN = NaN"
| "fl_add (Fin a) (Fin b) = Fin (a + b)"
| "fl_add PInf NInf = NaN"
| "fl_add NInf PInf = NaN"
| "fl_add PInf _ = PInf"
| "fl_add _ PInf = PInf"
| "fl_add NInf _ = NInf"
| "fl_add _ NInf = NInf"

definition fl_sub :: "fl \<Rightarrow> fl \<Rightarrow> fl" where
  "fl_sub a b = fl_add a (fl_neg b)"

fun fl_mul :: "fl \<Rightarrow> fl \<Rightarrow> fl" where
  "fl_mul NaN _ = NaN"
| "fl_mul _ NaN = NaN"
| "fl_mul (Fin a) (Fin b) = Fin (a * b)"
| "fl_mul (Fin a) PInf = (if a = 0 then NaN else if 0 < a then PInf else NInf)"
| "fl_mul (Fin a) NInf = (if a = 0 then NaN else if 0 < a then NInf else PInf)"
| "fl_mul PInf (Fin b) = (if b = 0 then NaN else if 0 < b then PInf else NInf)"
| "fl_mul NInf (Fin b) = (if b = 0 then NaN else if 0 < b then NInf else PInf)"
| "fl_mul PInf PInf = PInf"
| "fl_mul PInf NInf = NInf"
| "fl_mul NInf PInf = NInf"
| "fl_mul NInf NInf = PInf"

fun fl_div :: "fl \<Rightarrow> fl \<Rightarrow> fl" where
  "fl_div NaN _ = NaN"
| "fl_div _ NaN = NaN"
| "fl_div (Fin a) (Fin b) =
     (if b = 0 then (if a = 0 then NaN else if 0 < a then PInf else NInf)
      else Fin (a / b))"
| "fl_div (Fin a) PInf = Fin 0"
| "fl_div (Fin a) NInf = Fin 0"
| "fl_div PInf (Fin b) = (if 0 \<le> b then PInf else NInf)"
| "fl_div NInf (Fin b) = (if 0 \<le> b then NInf else PInf)"
| "fl_div PInf PInf = NaN"
| "fl_div PInf NInf = NaN"
| "fl_div NInf PInf = NaN"
| "fl_div NInf NInf = NaN"

fun fl_abs :: "fl \<Rightarrow> fl" where
  "fl_abs (Fin a) = Fin \<bar>a\<bar>"
| "fl_abs PInf = PInf"
| "fl_abs NInf = PInf"
| "fl_abs NaN = NaN"

fun fl_lt :: "fl \<Rightarrow> fl \<Rightarrow> bool" where
  "fl_lt (Fin a) (Fin b) = (a < b)"
| "fl_lt (Fin a) PInf = True"
| "fl_lt NInf (Fin b) = True"
| "fl_lt NInf PInf = True"
| "fl_lt _ _ = False"

fun fl_le :: "fl \<Rightarrow> fl \<Rightarrow> bool" where
  "fl_le NaN _ = False"
| "fl_le _ NaN = False"
| "fl_le (Fin a) (Fin b) = (a \<le> b)"
| "fl_le NInf _ = True"
| "fl_le _ PInf = True"
| "fl_le _ _ = False"

definition fl_gt :: "fl \<Rightarrow> fl \<Rightarrow> bool" where
  "fl_gt a b = fl_lt b a"

definition fl_ge :: "fl \<Rightarrow> fl \<Rightarrow> bool" where
  "fl_ge a b = fl_le b a"

text \<open>\<open>pd.notna\<close>: everything but NaN, the infinities included.\<close>

definition notna :: "fl \<Rightarrow> bool" where
  "notna x = (x \<noteq> NaN)"

fun is_fin :: "fl \<Rightarrow> bool" where
  "is_fin (Fin a) = True"
| "is_fin _ = False"

fun fin_val :: "fl \<Rightarrow> real" where
  "fin_val (Fin a) = a"
| "fin_val _ = 0"

section \<open>Positional access to a column\<close>

text \<open>
  \<open>series.iloc[i]\<close> with Python's negative indices; out of range raises IndexError.
  Every handler of the scoring engine is \<open>except Exception\<close>, so an exception is
  the value \<open>None\<close>.
\<close>

definition iloc :: "'a list \<Rightarrow> int \<Rightarrow> 'a option" where
  "iloc xs i =
     (let n = int (length xs); j = (if i < 0 then n + i else i)
      in if 0 \<le> j \<and> j < n then Some (xs ! nat j) else None)"

text \<open>\<open>series.iloc[-k:]\<close>: the last k entries, all of them when there are fewer.\<close>

definition iloc_last :: "nat \<Rightarrow> 'a list \<Rightarrow> 'a list" where
  "iloc_last k xs = drop (length xs - k) xs"

text \<open>\<open>series.iloc[-a:-b]\<close> for \<open>b \<le> a\<close>: from \<open>max (n - a) 0\<close> up to \<open>max (n - b) 0\<close>.\<close>

definition iloc_between :: "nat \<Rightarrow> nat \<Rightarrow> 'a list \<Rightarrow> 'a list" where
  "iloc_between a b xs =
     take ((length xs - b) - (length xs - a)) (drop (length xs - a) xs)"

text \<open>\<open>xs[::k]\<close>: every k-th entry, starting with the first.\<close>

fun every_nth :: "nat \<Rightarrow> 'a list \<Rightarrow> 'a list" where
  "every_nth k [] = []"
| "every_nth k (x # xs) = x # every_nth k (drop (k - 1) xs)"

section \<open>Aggregations of pandas\<close>

text \<open>\<open>Series.mean()\<close> and \<open>Series.max()\<close> skip NaN; with nothing left they give NaN.\<close>

definition fl_sum :: "fl list \<Rightarrow> fl" where
  "fl_sum xs = foldl fl_add (Fin 0) xs"

definition series_mean :: "fl list \<Rightarrow> fl" where
  "series_mean xs =
     (let ys = filter notna xs
      in if ys = [] then NaN else fl_div (fl_sum ys) (Fin (real (length ys))))"

definition fl_max2 :: "fl \<Rightarrow> fl \<Rightarrow> fl" where
  "fl_max2 a b = (if fl_lt a b then b else a)"

definition series_max :: "fl list \<Rightarrow> fl" where
  "series_max xs =
     (case filter notna xs of [] \<Rightarrow> NaN | y # ys \<Rightarrow> foldl fl_max2 y ys)"

text \<open>
  Rolling windows. pandas turns infinities into NaN before a window aggregation
  (\<open>prep_values\<close>), and with the default \<open>min_periods = window\<close> a window holding a
  NaN, or reaching before the start of the column, gives NaN: a window has a value only
  when it is full and all its entries are finite.
\<close>

definition prep_values :: "fl list \<Rightarrow> fl list" where
  "prep_values xs = map (\<lambda>x. if is_fin x then x else NaN) xs"

definition rolling :: "(real list \<Rightarrow> real) \<Rightarrow> nat \<Rightarrow> fl list \<Rightarrow> fl list" where
  "rolling f n xs =
     map (\<lambda>i. if i + 1 < n then NaN
              else (let w = take n (drop (i + 1 - n) xs)
                    in if list_all is_fin w then Fin (f (map fin_val w)) else NaN))
         [0 ..< length xs]"

definition mean_list :: "real list \<Rightarrow> real" where
  "mean_list w = sum_list w / real (length w)"

definition rolling_mean :: "nat \<Rightarrow> fl list \<Rightarrow> fl list" where
  "rolling_mean n xs = rolling mean_list n xs"

definition max_list :: "real list \<Rightarrow> real" where
  "max_list w = (case w of [] \<Rightarrow> 0 | x # ys \<Rightarrow> foldl max x ys)"

definition rolling_max :: "nat \<Rightarrow> fl list \<Rightarrow> fl list" where
  "rolling_max n xs = rolling max_list n xs"

text \<open>\<open>rolling(n).std()\<close> is the sample standard deviation (ddof = 1).\<close>

definition std_list :: "real list \<Rightarrow> real" where
  "std_list w =
     sqrt (sum_list (map (\<lambda>x. (x - mean_list w)\<^sup>2) w) / (real (length w) - 1))"

definition rolling_std :: "nat \<Rightarrow> fl list \<Rightarrow> fl list" where
  "rolling_std n xs = rolling std_list n xs"

section \<open>The augmented series\<close>

text \<open>
  The DataFrame that \<open>calculate_all_indicators\<close> returns and \<open>ScoringEngine\<close> reads:
  the price columns and one column per indicator.
\<close>

record aug =
  Open :: "fl list"
  High :: "fl list"
  Low :: "fl list"
  Close :: "fl list"
  Volume :: "fl list"
  EMA_20 :: "fl list"
  SMA_50 :: "fl list"
  SMA_200 :: "fl list"
  EMA_20_slope :: "fl list"
  SMA_50_slope :: "fl list"
  SMA_200_slope :: "fl list"
  RSI :: "fl list"
  ROC :: "fl list"
  MACD :: "fl list"
  MACD_Signal :: "fl list"
  MACD_Hist :: "fl list"
  Hist_Momentum :: "fl list"
  ADX :: "fl list"
  Plus_DI :: "fl list"
  Minus_DI :: "fl list"
  DI_Spread :: "fl list"
  ADX_Rising :: "bool list"
  Vol_SMA_20 :: "fl list"
  Vol_SMA_50 :: "fl list"
  Vol_Ratio :: "fl list"
  OBV :: "fl list"
  OBV_EMA :: "fl list"
  BB_Upper :: "fl list"
  BB_Middle :: "fl list"
  BB_Lower :: "fl list"
  BB_Position :: "fl list"
  ATR :: "fl list"
  ATR_Percent :: "fl list"
  High_52W :: "fl list"
  High_4W :: "fl list"
  High_2W :: "fl list"

section \<open>Column arithmetic\<close>

text \<open>\<open>series.shift(k)\<close> moves every entry k rows down and fills the top with NaN;
  \<open>series.diff(k)\<close> is \<open>series - series.shift(k)\<close>.\<close>

definition shift :: "nat \<Rightarrow> fl list \<Rightarrow> fl list" where
  "shift k xs = replicate (min k (length xs)) NaN @ take (length xs - k) xs"

definition diff :: "nat \<Rightarrow> fl list \<Rightarrow> fl list" where
  "diff k xs = map2 fl_sub xs (shift k xs)"

text \<open>\<open>series.pct_change(k)\<close> is \<open>series / series.shift(k) - 1\<close>. (The forward fill that
  older pandas versions apply first only touches a NaN that follows a value; the three
  averages it is used on are NaN on a prefix only.)\<close>

definition pct_change :: "nat \<Rightarrow> fl list \<Rightarrow> fl list" where
  "pct_change k xs = map2 (\<lambda>a b. fl_sub (fl_div a b) (Fin 1)) xs (shift k xs)"

definition scale :: "real \<Rightarrow> fl list \<Rightarrow> fl list" where
  "scale c xs = map (\<lambda>x. fl_mul x (Fin c)) xs"

text \<open>\<open>pd.concat([a, b, c], axis=1).max(axis=1)\<close>: the row-wise maximum, skipping NaN.\<close>

definition nan_max :: "fl \<Rightarrow> fl \<Rightarrow> fl" where
  "nan_max a b = (if a = NaN then b else if b = NaN then a else fl_max2 a b)"

definition row_max3 :: "fl list \<Rightarrow> fl list \<Rightarrow> fl list \<Rightarrow> fl list" where
  "row_max3 xs ys zs = map2 nan_max (map2 nan_max xs ys) zs"

fun np_sign :: "fl \<Rightarrow> fl" where
  "np_sign (Fin a) = Fin (sgn a)"
| "np_sign PInf = Fin 1"
| "np_sign NInf = Fin (- 1)"
| "np_sign NaN = NaN"

definition fillna :: "real \<Rightarrow> fl list \<Rightarrow> fl list" where
  "fillna c xs = map (\<lambda>x. if x = NaN then Fin c else x) xs"

text \<open>\<open>series.cumsum()\<close> skips NaN: a NaN row stays NaN and leaves the running sum alone.\<close>

fun cumsum_from :: "fl \<Rightarrow> fl list \<Rightarrow> fl list" where
  "cumsum_from acc [] = []"
| "cumsum_from acc (x # xs) =
     (if x = NaN then NaN # cumsum_from acc xs
      else fl_add acc x # cumsum_from (fl_add acc x) xs)"

definition cumsum :: "fl list \<Rightarrow> fl list" where
  "cumsum xs = cumsum_from (Fin 0) xs"

subsection \<open>Exponentially weighted mean\<close>

text \<open>
  \<open>series.ewm(span=s, adjust=False).mean()\<close>, as pandas computes it: the running value
  \<open>weighted\<close> starts at the first observation; an observation \<open>cur\<close> replaces it by
  \<open>(old_wt * weighted + alpha * cur) / (old_wt + alpha)\<close> with \<open>alpha = 2 / (s + 1)\<close> and
  \<open>old_wt\<close> the weight \<open>1 - alpha\<close> raised to the number of rows since the last
  observation; a NaN row repeats the running value. A span below 1 raises ValueError.
\<close>

fun ewm_from :: "real \<Rightarrow> fl \<Rightarrow> real \<Rightarrow> fl list \<Rightarrow> fl list" where
  "ewm_from alpha weighted old_wt [] = []"
| "ewm_from alpha weighted old_wt (cur # rest) =
     (case weighted of
        Fin w \<Rightarrow>
          (case cur of
             Fin c \<Rightarrow>
               (let ow = old_wt * (1 - alpha);
                    w' = (ow * w + alpha * c) / (ow + alpha)
                in Fin w' # ewm_from alpha (Fin w') 1 rest)
           | _ \<Rightarrow> weighted # ewm_from alpha weighted (old_wt * (1 - alpha)) rest)
      | _ \<Rightarrow> cur # ewm_from alpha cur old_wt rest)"

definition ewm_values :: "real \<Rightarrow> fl list \<Rightarrow> fl list" where
  "ewm_values alpha xs =
     (case prep_values xs of
        [] \<Rightarrow> []
      | x # rest \<Rightarrow> x # ewm_from alpha x 1 rest)"

definition ewm_mean :: "nat \<Rightarrow> fl list \<Rightarrow> fl list option" where
  "ewm_mean span_v xs =
     (if span_v < 1 then None else Some (ewm_values (2 / (real span_v + 1)) xs))"

section \<open>TechnicalEngine\<close>

text \<open>
  One row of the price history. The prices are finite numbers and the volume an integer,
  as the data model has them; the engine reads the columns \<open>Close\<close>, \<open>High\<close>, \<open>Low\<close> and
  \<open>Volume\<close> of the frame.
\<close>

record bar =
  b_date :: int
  b_open :: real
  b_high :: real
  b_low :: real
  b_close :: real
  b_volume :: int

definition calculate_ema :: "fl list \<Rightarrow> nat \<Rightarrow> fl list option" where
  "calculate_ema close period = ewm_mean period close"

definition calculate_sma :: "fl list \<Rightarrow> nat \<Rightarrow> fl list" where
  "calculate_sma close period = rolling_mean period close"

text \<open>The two averages whose ratio is RS: the rolling means of the gains and of the
  losses among the day-to-day changes of the close.\<close>

definition rsi_gain :: "fl list \<Rightarrow> nat \<Rightarrow> fl list" where
  "rsi_gain close period =
     rolling_mean period
       (map (\<lambda>d. if fl_gt d (Fin 0) then d else Fin 0) (diff 1 close))"

definition rsi_loss :: "fl list \<Rightarrow> nat \<Rightarrow> fl list" where
  "rsi_loss close period =
     rolling_mean period
       (map fl_neg (map (\<lambda>d. if fl_lt d (Fin 0) then d else Fin 0) (diff 1 close)))"

definition calculate_rsi :: "fl list \<Rightarrow> nat \<Rightarrow> fl list" where
  "calculate_rsi close period =
     (let gain = rsi_gain close period;
          loss = rsi_loss close period;
          rs = map2 fl_div gain loss
      in map (\<lambda>r. fl_sub (Fin 100) (fl_div (Fin 100) (fl_add (Fin 1) r))) rs)"

definition calculate_macd :: "fl list \<Rightarrow> (fl list \<times> fl list \<times> fl list) option" where
  "calculate_macd close =
     do {
       ema12 \<leftarrow> calculate_ema close 12;
       ema26 \<leftarrow> calculate_ema close 26;
       let macd = map2 fl_sub ema12 ema26;
       signal \<leftarrow> ewm_mean 9 macd;
       let histogram = map2 fl_sub macd signal;
       Some (macd, signal, histogram)
     }"

definition true_range :: "fl list \<Rightarrow> fl list \<Rightarrow> fl list \<Rightarrow> fl list" where
  "true_range high low close =
     (let tr1 = map2 fl_sub high low;
          tr2 = map fl_abs (map2 fl_sub high (shift 1 close));
          tr3 = map fl_abs (map2 fl_sub low (shift 1 close))
      in row_max3 tr1 tr2 tr3)"

definition calculate_adx ::
  "fl list \<Rightarrow> fl list \<Rightarrow> fl list \<Rightarrow> nat \<Rightarrow> fl list \<times> fl list \<times> fl list" where
  "calculate_adx high low close period =
     (let high_diff = diff 1 high;
          low_diff = map fl_neg (diff 1 low);
          plus_dm = map2 (\<lambda>h l. if fl_gt h l \<and> fl_gt h (Fin 0) then h else Fin 0)
                         high_diff low_diff;
          minus_dm = map2 (\<lambda>h l. if fl_gt l h \<and> fl_gt l (Fin 0) then l else Fin 0)
                          high_diff low_diff;
          tr = true_range high low close;
          atr = rolling_mean period tr;
          plus_di = scale 100 (map2 fl_div (rolling_mean period plus_dm) atr);
          minus_di = scale 100 (map2 fl_div (rolling_mean period minus_dm) atr);
          dx = map2 fl_div (scale 100 (map fl_abs (map2 fl_sub plus_di minus_di)))
                           (map2 fl_add plus_di minus_di);
          adx = rolling_mean period dx
      in (adx, plus_di, minus_di))"

definition calculate_bollinger_bands ::
  "fl list \<Rightarrow> nat \<Rightarrow> real \<Rightarrow> fl list \<times> fl list \<times> fl list" where
  "calculate_bollinger_bands close period std_dev =
     (let middle = calculate_sma close period;
          std = rolling_std period close;
          upper = map2 fl_add middle (scale std_dev std);
          lower = map2 fl_sub middle (scale std_dev std)
      in (upper, middle, lower))"

definition calculate_atr :: "fl list \<Rightarrow> fl list \<Rightarrow> fl list \<Rightarrow> nat \<Rightarrow> fl list" where
  "calculate_atr high low close period = rolling_mean period (true_range high low close)"

definition calculate_obv :: "fl list \<Rightarrow> fl list \<Rightarrow> fl list" where
  "calculate_obv close volume =
     cumsum (fillna 0 (map2 fl_mul (map np_sign (diff 1 close)) volume))"

definition calculate_roc :: "fl list \<Rightarrow> nat \<Rightarrow> fl list" where
  "calculate_roc close period =
     scale 100 (map2 fl_div (map2 fl_sub close (shift period close)) (shift period close))"

definition calculate_all_indicators :: "bar list \<Rightarrow> aug option" where
  "calculate_all_indicators bars =
     (let open_c = map (\<lambda>b. Fin (b_open b)) bars;
          high = map (\<lambda>b. Fin (b_high b)) bars;
          low = map (\<lambda>b. Fin (b_low b)) bars;
          close = map (\<lambda>b. Fin (b_close b)) bars;
          volume = map (\<lambda>b. Fin (real_of_int (b_volume b))) bars
      in do {
        ema_20 \<leftarrow> calculate_ema close 20;
        let sma_50 = calculate_sma close 50;
        let sma_200 = calculate_sma close 200;
        (macd, signal, histogram) \<leftarrow> calculate_macd close;
        let (adx, plus_di, minus_di) = calculate_adx high low close 14;
        let vol_sma_20 = rolling_mean 20 volume;
        let obv = calculate_obv close volume;
        obv_ema \<leftarrow> ewm_mean 20 obv;
        let (bb_upper, bb_middle, bb_lower) = calculate_bollinger_bands close 20 2;
        let atr = calculate_atr high low close 14;
        Some \<lparr> Open = open_c, High = high, Low = low, Close = close, Volume = volume,
               EMA_20 = ema_20, SMA_50 = sma_50, SMA_200 = sma_200,
               EMA_20_slope = scale 100 (pct_change 5 ema_20),
               SMA_50_slope = scale 100 (pct_change 5 sma_50),
               SMA_200_slope = scale 100 (pct_change 5 sma_200),
               RSI = calculate_rsi close 14,
               ROC = calculate_roc close 10,
               MACD = macd, MACD_Signal = signal, MACD_Hist = histogram,
               Hist_Momentum = diff 3 histogram,
               ADX = adx, Plus_DI = plus_di, Minus_DI = minus_di,
               DI_Spread = map2 fl_sub plus_di minus_di,
               ADX_Rising = map (\<lambda>d. fl_gt d (Fin 0)) (diff 3 adx),
               Vol_SMA_20 = vol_sma_20,
               Vol_SMA_50 = rolling_mean 50 volume,
               Vol_Ratio = scale 100 (map2 fl_div volume vol_sma_20),
               OBV = obv, OBV_EMA = obv_ema,
               BB_Upper = bb_upper, BB_Middle = bb_middle, BB_Lower = bb_lower,
               BB_Position =
                 scale 100 (map2 fl_div (map2 fl_sub close bb_lower)
                                        (map2 fl_sub bb_upper bb_lower)),
               ATR = atr,
               ATR_Percent = scale 100 (map2 fl_div atr close),
               High_52W = rolling_max 252 high,
               High_4W = rolling_max 20 high,
               High_2W = rolling_max 10 high \<rparr>
      })"

section \<open>ScoringEngine\<close>

text \<open>
  Each category method runs its body inside \<open>try\<close>, adding to the local \<open>score\<close>;
  the handler logs and falls through, so the method returns the score reached when the
  exception was raised. A body is therefore a value \<open>Inl score\<close> (raised, with the score
  so far) or \<open>Inr score\<close> (ran to its end). \<open>attempt r score k\<close> evaluates the
  expression \<open>r\<close> at a point where the score is \<open>score\<close> and continues with \<open>k\<close>.
\<close>

definition attempt :: "'a option \<Rightarrow> int \<Rightarrow> ('a \<Rightarrow> int + int) \<Rightarrow> int + int" where
  "attempt r score k = (case r of None \<Rightarrow> Inl score | Some v \<Rightarrow> k v)"

definition except_log :: "int + int \<Rightarrow> int" where
  "except_log body = (case body of Inl score \<Rightarrow> score | Inr score \<Rightarrow> score)"

subsection \<open>A. Trend alignment (25 points)\<close>

definition price_position :: "fl \<Rightarrow> fl \<Rightarrow> fl \<Rightarrow> fl \<Rightarrow> int" where
  "price_position current ema20 sma50 sma200 =
     (if notna ema20 \<and> notna sma50 \<and> notna sma200 then
        (if fl_gt current ema20 \<and> fl_gt ema20 sma50 \<and> fl_gt sma50 sma200 then 12
         else if fl_gt current sma50 \<and> fl_gt sma50 sma200 then 10
         else if fl_gt current sma50 then 7
         else if fl_gt current (fl_mul sma50 (Fin 0.97)) then 4
         else 0)
      else 0)"

definition ma_slopes :: "fl \<Rightarrow> fl \<Rightarrow> fl \<Rightarrow> int" where
  "ma_slopes ema20 sma50 sma200 =
     (if list_all (\<lambda>s. notna s \<and> fl_gt s (Fin 2)) [ema20, sma50, sma200] then 8
      else if fl_gt ema20 (Fin 2) \<and> fl_gt sma50 (Fin 2) then 6
      else if fl_gt ema20 (Fin 2) then 3
      else 0)"

definition ma_divergence :: "fl \<Rightarrow> fl \<Rightarrow> fl \<Rightarrow> int" where
  "ma_divergence ema20 sma50 sma200 =
     (if notna ema20 \<and> notna sma50 \<and> notna sma200 then
        (if fl_gt ema20 sma50 \<and> fl_gt sma50 sma200 then
           (let spacing = fl_mul (fl_div (fl_sub ema20 sma50) sma50) (Fin 100)
            in if fl_gt spacing (Fin 2) then 5
               else if fl_gt spacing (Fin 0) then 3
               else 0)
         else 0)
      else 0)"

definition trend_alignment_body :: "aug \<Rightarrow> int + int" where
  "trend_alignment_body df =
     attempt (iloc (Close df) (- 1)) 0 (\<lambda>current.
     attempt (iloc (EMA_20 df) (- 1)) 0 (\<lambda>ema20.
     attempt (iloc (SMA_50 df) (- 1)) 0 (\<lambda>sma50.
     attempt (iloc (SMA_200 df) (- 1)) 0 (\<lambda>sma200.
     let score = 0 + price_position current ema20 sma50 sma200 in
     attempt (iloc (EMA_20_slope df) (- 1)) score (\<lambda>s_ema20.
     attempt (iloc (SMA_50_slope df) (- 1)) score (\<lambda>s_sma50.
     attempt (iloc (SMA_200_slope df) (- 1)) score (\<lambda>s_sma200.
     let score = score + ma_slopes s_ema20 s_sma50 s_sma200;
         score = score + ma_divergence ema20 sma50 sma200
     in Inr score)))))))"

definition score_trend_alignment :: "aug \<Rightarrow> int" where
  "score_trend_alignment df = except_log (trend_alignment_body df)"

subsection \<open>B. Momentum and strength (35 points)\<close>

definition adx_points :: "fl \<Rightarrow> int" where
  "adx_points adx =
     (if notna adx then
        (if fl_gt adx (Fin 40) then 10
         else if fl_gt adx (Fin 30) then 8
         else if fl_gt adx (Fin 25) then 6
         else if fl_gt adx (Fin 20) then 4
         else 0)
      else 0)"

definition di_points :: "fl \<Rightarrow> bool \<Rightarrow> int" where
  "di_points di_spread adx_rising =
     (if notna di_spread then
        (if fl_gt di_spread (Fin 10) \<and> adx_rising then 5
         else if fl_gt di_spread (Fin 5) then 3
         else if fl_gt di_spread (Fin 0) then 1
         else 0)
      else 0)"

definition rsi_points :: "fl \<Rightarrow> int" where
  "rsi_points rsi =
     (if notna rsi then
        (if fl_le (Fin 60) rsi \<and> fl_le rsi (Fin 70) then 8
         else if fl_le (Fin 55) rsi \<and> fl_le rsi (Fin 65) then 6
         else if fl_le (Fin 50) rsi \<and> fl_le rsi (Fin 60) then 4
         else if fl_le (Fin 45) rsi \<and> fl_le rsi (Fin 55) then 2
         else 0)
      else 0)"

definition roc_points :: "fl \<Rightarrow> int" where
  "roc_points roc =
     (if notna roc then
        (if fl_gt roc (Fin 8) then 4
         else if fl_gt roc (Fin 4) then 3
         else if fl_gt roc (Fin 2) then 2
         else if fl_gt roc (Fin 0) then 1
         else 0)
      else 0)"

definition macd_points :: "fl \<Rightarrow> fl \<Rightarrow> fl \<Rightarrow> fl \<Rightarrow> int" where
  "macd_points macd signal hist hist_mom =
     (if notna macd \<and> notna signal then
        (if fl_gt macd signal \<and> fl_gt hist (Fin 0) \<and> fl_gt hist_mom (Fin 0) then 8
         else if fl_gt macd signal \<and> fl_gt hist (Fin 0) then 6
         else if fl_gt macd signal then 4
         else 0)
      else 0)"

definition momentum_strength_body :: "aug \<Rightarrow> int + int" where
  "momentum_strength_body df =
     attempt (iloc (ADX df) (- 1)) 0 (\<lambda>adx.
     let score = 0 + adx_points adx in
     attempt (iloc (DI_Spread df) (- 1)) score (\<lambda>di_spread.
     attempt (iloc (ADX_Rising df) (- 1)) score (\<lambda>adx_rising.
     let score = score + di_points di_spread adx_rising in
     attempt (iloc (RSI df) (- 1)) score (\<lambda>rsi.
     let score = score + rsi_points rsi in
     attempt (iloc (ROC df) (- 1)) score (\<lambda>roc.
     let score = score + roc_points roc in
     attempt (iloc (MACD df) (- 1)) score (\<lambda>macd.
     attempt (iloc (MACD_Signal df) (- 1)) score (\<lambda>signal.
     attempt (iloc (MACD_Hist df) (- 1)) score (\<lambda>hist.
     attempt (iloc (Hist_Momentum df) (- 1)) score (\<lambda>hist_mom.
     let score = score + macd_points macd signal hist hist_mom
     in Inr score)))))))))"

definition score_momentum_strength :: "aug \<Rightarrow> int" where
  "score_momentum_strength df = except_log (momentum_strength_body df)"

subsection \<open>C. Volume and liquidity (20 points)\<close>

definition vol_surge_points :: "fl \<Rightarrow> int" where
  "vol_surge_points vol_ratio =
     (if notna vol_ratio then
        (if fl_gt vol_ratio (Fin 200) then 8
         else if fl_gt vol_ratio (Fin 150) then 6
         else if fl_gt vol_ratio (Fin 120) then 4
         else if fl_gt vol_ratio (Fin 100) then 2
         else 0)
      else 0)"

definition obv_points :: "fl \<Rightarrow> fl \<Rightarrow> fl \<Rightarrow> int" where
  "obv_points obv obv_ema obv_high =
     (if notna obv \<and> notna obv_ema then
        (if fl_ge obv obv_high then 6
         else if fl_gt obv obv_ema then 4
         else 2)
      else 0)"

definition vol_price_points :: "fl \<Rightarrow> fl \<Rightarrow> int" where
  "vol_price_points vol_trend price_trend =
     (if fl_gt vol_trend (Fin 1) \<and> fl_gt price_trend (Fin 1) then 6
      else if fl_gt vol_trend (Fin 1) \<or> fl_gt price_trend (Fin 1) then 3
      else 0)"

text \<open>The two ratios of the volume-price confirmation: the mean of the last ten rows
  over the mean of the ten rows before them.\<close>

definition trend_ratio :: "fl list \<Rightarrow> fl" where
  "trend_ratio col =
     fl_div (series_mean (iloc_last 10 col)) (series_mean (iloc_between 20 10 col))"

definition volume_liquidity_body :: "aug \<Rightarrow> int + int" where
  "volume_liquidity_body df =
     attempt (iloc (Vol_Ratio df) (- 1)) 0 (\<lambda>vol_ratio.
     let score = 0 + vol_surge_points vol_ratio in
     attempt (iloc (OBV df) (- 1)) score (\<lambda>obv.
     attempt (iloc (OBV_EMA df) (- 1)) score (\<lambda>obv_ema.
     let obv_high = series_max (iloc_last 50 (OBV df));
         score = score + obv_points obv obv_ema obv_high;
         vol_trend = trend_ratio (Volume df);
         price_trend = trend_ratio (Close df);
         score = score + vol_price_points vol_trend price_trend
     in Inr score)))"

definition score_volume_liquidity :: "aug \<Rightarrow> int" where
  "score_volume_liquidity df = except_log (volume_liquidity_body df)"

subsection \<open>D. Price action and breakouts (25 points)\<close>

text \<open>
  The loop \<open>for i in range(len(w) - 1, 0, -1)\<close> walks the sampled closes from the last
  one backwards and stops at the first pair that does not rise; here it runs over the
  reversed list.
\<close>

fun consecutive_rises :: "fl list \<Rightarrow> int" where
  "consecutive_rises (a # b # rest) =
     (if fl_gt a b then 1 + consecutive_rises (b # rest) else 0)"
| "consecutive_rises _ = 0"

definition weekly_momentum_points :: "fl list \<Rightarrow> int" where
  "weekly_momentum_points closes =
     (let weekly_closes = every_nth 5 (iloc_last 35 closes);
          consecutive = consecutive_rises (rev weekly_closes)
      in if 5 \<le> consecutive then 10
         else if 3 \<le> consecutive then 7
         else if 2 \<le> consecutive then 4
         else if 1 \<le> consecutive then 2
         else 0)"

definition breakout_points :: "fl \<Rightarrow> fl \<Rightarrow> fl \<Rightarrow> fl \<Rightarrow> fl \<Rightarrow> int" where
  "breakout_points current high_52w high_4w high_2w vol_ratio =
     (if notna high_52w \<and> fl_ge current (fl_mul high_52w (Fin 0.995))
          \<and> fl_gt vol_ratio (Fin 150) then 8
      else if notna high_4w \<and> fl_ge current (fl_mul high_4w (Fin 0.995)) then 7
      else if notna high_2w \<and> fl_ge current (fl_mul high_2w (Fin 0.995)) then 5
      else 0)"

definition low_trend_points :: "fl \<Rightarrow> int" where
  "low_trend_points low_trend = (if fl_gt low_trend (Fin 0) then 7 else 3)"

text \<open>
  \<open>np.polyfit(range(len(lows)), lows, 1)[0]\<close> is numpy's least-squares fit, which is not
  code of this repository: the slope it returns for a list of lows (\<open>None\<close> when it
  raises) is the parameter \<open>polyfit\<close>.
\<close>

definition price_action_breakouts_body :: "(fl list \<Rightarrow> fl option) \<Rightarrow> aug \<Rightarrow> int + int" where
  "price_action_breakouts_body polyfit df =
     attempt (iloc (Close df) (- 1)) 0 (\<lambda>current.
     let score = 0 + weekly_momentum_points (Close df) in
     attempt (iloc (High_52W df) (- 2)) score (\<lambda>high_52w.
     attempt (iloc (High_4W df) (- 2)) score (\<lambda>high_4w.
     attempt (iloc (High_2W df) (- 2)) score (\<lambda>high_2w.
     attempt (iloc (Vol_Ratio df) (- 1)) score (\<lambda>vol_ratio.
     let score = score + breakout_points current high_52w high_4w high_2w vol_ratio;
         lows = iloc_last 20 (Low df);
         highs = iloc_last 20 (High df)
     in if 0 < length lows \<and> 0 < length highs then
          attempt (polyfit lows) score (\<lambda>low_trend.
          Inr (score + low_trend_points low_trend))
        else Inr score)))))"

definition score_price_action_breakouts :: "(fl list \<Rightarrow> fl option) \<Rightarrow> aug \<Rightarrow> int" where
  "score_price_action_breakouts polyfit df =
     except_log (price_action_breakouts_body polyfit df)"

subsection \<open>E. Volatility and risk (10 points)\<close>

definition bb_points :: "fl \<Rightarrow> int" where
  "bb_points bb_position =
     (if notna bb_position then
        (if fl_gt bb_position (Fin 80) then 6
         else if fl_gt bb_position (Fin 60) then 4
         else if fl_gt bb_position (Fin 50) then 2
         else 0)
      else 0)"

definition atr_points :: "fl \<Rightarrow> fl \<Rightarrow> int" where
  "atr_points atr_current atr_past =
     (if notna atr_current \<and> notna atr_past then
        (let atr_change = fl_mul (fl_div (fl_sub atr_current atr_past) atr_past) (Fin 100)
         in if fl_le (Fin 10) atr_change \<and> fl_le atr_change (Fin 20) then 4
            else if fl_le (Fin (- 5)) atr_change \<and> fl_le atr_change (Fin 10) then 3
            else if fl_le (Fin (- 10)) atr_change \<and> fl_lt atr_change (Fin (- 5)) then 2
            else 0)
      else 0)"

definition volatility_risk_body :: "aug \<Rightarrow> int + int" where
  "volatility_risk_body df =
     attempt (iloc (BB_Position df) (- 1)) 0 (\<lambda>bb_position.
     let score = 0 + bb_points bb_position in
     attempt (iloc (ATR_Percent df) (- 1)) score (\<lambda>atr_current.
     attempt (iloc (ATR_Percent df) (- 10)) score (\<lambda>atr_past.
     Inr (score + atr_points atr_current atr_past))))"

definition score_volatility_risk :: "aug \<Rightarrow> int" where
  "score_volatility_risk df = except_log (volatility_risk_body df)"

subsection \<open>F. Ichimoku cloud, simplified (5 points)\<close>

definition ichimoku_points :: "fl \<Rightarrow> fl \<Rightarrow> fl \<Rightarrow> int" where
  "ichimoku_points tenkan kijun current =
     (if notna tenkan \<and> notna kijun then
        (if fl_gt current kijun \<and> fl_gt tenkan kijun then
           (let distance = fl_mul (fl_div (fl_sub current kijun) kijun) (Fin 100)
            in if fl_gt distance (Fin 10) then 5
               else if fl_gt distance (Fin 5) then 4
               else 2)
         else 0)
      else 0)"

definition ichimoku_body :: "aug \<Rightarrow> int + int" where
  "ichimoku_body df =
     attempt (iloc (rolling_mean 9 (Close df)) (- 1)) 0 (\<lambda>tenkan.
     attempt (iloc (rolling_mean 26 (Close df)) (- 1)) 0 (\<lambda>kijun.
     attempt (iloc (Close df) (- 1)) 0 (\<lambda>current.
     Inr (0 + ichimoku_points tenkan kijun current))))"

definition score_ichimoku :: "aug \<Rightarrow> int" where
  "score_ichimoku df = except_log (ichimoku_body df)"

subsection \<open>Total score and classification\<close>

record score_result =
  total_score :: int
  classification :: string
  color :: string
  category_scores :: "(string \<times> int) list"

definition classify :: "int \<Rightarrow> string \<times> string" where
  "classify score =
     (if 100 \<le> score then (''Exceptional'', ''#047857'')
      else if 85 \<le> score then (''Very High'', ''#065f46'')
      else if 70 \<le> score then (''High'', ''#059669'')
      else if 55 \<le> score then (''Medium'', ''#d97706'')
      else if 40 \<le> score then (''Low'', ''#dc2626'')
      else (''Weak'', ''#991b1b''))"

text \<open>
  \<open>calculate_total_score\<close> calls the six methods in order; each stores its score in
  \<open>self.scores\<close> under its category name. Nothing here is inside a \<open>try\<close>, and the
  method has no \<open>raise\<close>: the result is an option (\<open>None\<close> would be an exception
  reaching the caller) so that failing can be stated at all.
\<close>

definition calculate_total_score :: "(fl list \<Rightarrow> fl option) \<Rightarrow> aug \<Rightarrow> score_result option" where
  "calculate_total_score polyfit df =
     (let a = score_trend_alignment df;
          b = score_momentum_strength df;
          c = score_volume_liquidity df;
          d = score_price_action_breakouts polyfit df;
          e = score_volatility_risk df;
          f = score_ichimoku df;
          self_total = a + b + c + d + e + f
      in Some \<lparr> total_score = self_total,
                 classification = fst (classify self_total),
                 color = snd (classify self_total),
                 category_scores =
                   [(''Trend Alignment'', a), (''Momentum & Strength'', b),
                    (''Volume & Liquidity'', c), (''Price Action & Breakouts'', d),
                    (''Volatility & Risk'', e), (''Ichimoku Cloud'', f)] \<rparr>)"

section \<open>Vocabulary of the proofs\<close>

text \<open>A score between 0 and a bound, and a category body whose score, raised or not,
  stays within the category cap.\<close>

definition pts :: "int \<Rightarrow> int \<Rightarrow> bool" where
  "pts hi x = (0 \<le> x \<and> x \<le> hi)"

definition capped :: "int \<Rightarrow> int + int \<Rightarrow> bool" where
  "capped cap body = pts cap (except_log body)"

text \<open>The frame with no rows, and a least-squares fit that raises on every input.\<close>

definition empty_df :: aug where
  "empty_df =
     \<lparr> Open = [], High = [], Low = [], Close = [], Volume = [],
       EMA_20 = [], SMA_50 = [], SMA_200 = [],
       EMA_20_slope = [], SMA_50_slope = [], SMA_200_slope = [],
       RSI = [], ROC = [], MACD = [], MACD_Signal = [], MACD_Hist = [],
       Hist_Momentum = [], ADX = [], Plus_DI = [], Minus_DI = [], DI_Spread = [],
       ADX_Rising = [], Vol_SMA_20 = [], Vol_SMA_50 = [], Vol_Ratio = [],
       OBV = [], OBV_EMA = [], BB_Upper = [], BB_Middle = [], BB_Lower = [],
       BB_Position = [], ATR = [], ATR_Percent = [],
       High_52W = [], High_4W = [], High_2W = [] \<rparr>"

definition polyfit_raises :: "fl list \<Rightarrow> fl option" where
  "polyfit_raises lows = None"

text \<open>The recursion of the exponential average on a column without NaN:
  \<open>e\<^sub>0 = c\<^sub>0\<close>, \<open>e\<^sub>i = alpha * c\<^sub>i + (1 - alpha) * e\<^sub>i\<^sub>-\<^sub>1\<close>.\<close>

fun ema_from :: "real \<Rightarrow> real \<Rightarrow> real list \<Rightarrow> real list" where
  "ema_from alpha w [] = []"
| "ema_from alpha w (c # cs) =
     (alpha * c + (1 - alpha) * w) # ema_from alpha (alpha * c + (1 - alpha) * w) cs"

definition ema :: "real \<Rightarrow> real list \<Rightarrow> real list" where
  "ema alpha cs = (case cs of [] \<Rightarrow> [] | c # rest \<Rightarrow> c # ema_from alpha c rest)"

text \<open>The columns that \<open>calculate_all_indicators\<close> reads from the bars, and the MACD
  line and histogram it derives from the close.\<close>

definition close_col :: "bar list \<Rightarrow> fl list" where
  "close_col bars = map (\<lambda>b. Fin (b_close b)) bars"

definition high_col :: "bar list \<Rightarrow> fl list" where
  "high_col bars = map (\<lambda>b. Fin (b_high b)) bars"

definition low_col :: "bar list \<Rightarrow> fl list" where
  "low_col bars = map (\<lambda>b. Fin (b_low b)) bars"

definition volume_col :: "bar list \<Rightarrow> fl list" where
  "volume_col bars = map (\<lambda>b. Fin (real_of_int (b_volume b))) bars"

definition macd_col :: "bar list \<Rightarrow> fl list" where
  "macd_col bars = map2 fl_sub (ewm_values (2 / 13) (close_col bars)) (ewm_values (2 / 27) (close_col bars))"

definition hist_col :: "bar list \<Rightarrow> fl list" where
  "hist_col bars = map2 fl_sub (macd_col bars) (ewm_values (2 / 10) (macd_col bars))"

text \<open>All columns of a frame have n rows.\<close>

definition aligned :: "nat \<Rightarrow> aug \<Rightarrow> bool" where
  "aligned n a =
     (length (Open a) = n \<and> length (High a) = n \<and> length (Low a) = n \<and>
      length (Close a) = n \<and> length (Volume a) = n \<and> length (EMA_20 a) = n \<and>
      length (SMA_50 a) = n \<and> length (SMA_200 a) = n \<and> length (EMA_20_slope a) = n \<and>
      length (SMA_50_slope a) = n \<and> length (SMA_200_slope a) = n \<and> length (RSI a) = n \<and>
      length (ROC a) = n \<and> length (MACD a) = n \<and> length (MACD_Signal a) = n \<and>
      length (MACD_Hist a) = n \<and> length (Hist_Momentum a) = n \<and> length (ADX a) = n \<and>
      length (Plus_DI a) = n \<and> length (Minus_DI a) = n \<and> length (DI_Spread a) = n \<and>
      length (ADX_Rising a) = n \<and> length (Vol_SMA_20 a) = n \<and> length (Vol_SMA_50 a) = n \<and>
      length (Vol_Ratio a) = n \<and> length (OBV a) = n \<and> length (OBV_EMA a) = n \<and>
      length (BB_Upper a) = n \<and> length (BB_Middle a) = n \<and> length (BB_Lower a) = n \<and>
      length (BB_Position a) = n \<and> length (ATR a) = n \<and> length (ATR_Percent a) = n \<and>
      length (High_52W a) = n \<and> length (High_4W a) = n \<and> length (High_2W a) = n)"

text \<open>A single bar, for concrete series.\<close>

definition bar1 :: bar where
  "bar1 = \<lparr> b_date = 0, b_open = 10, b_high = 10, b_low = 10, b_close = 10, b_volume = 100 \<rparr>"

text \<open>A frame of two rows whose latest close reaches the prior 52-week high on a
  volume ratio of 160.\<close>

definition breakout_df :: aug where
  "breakout_df =
     empty_df \<lparr> High := [Fin 100, Fin 101], Low := [Fin 98, Fin 99],
                Close := [Fin 99, Fin 100], Vol_Ratio := [Fin 100, Fin 160],
                High_52W := [Fin 100, Fin 101], High_4W := [Fin 100, Fin 101],
                High_2W := [Fin 100, Fin 101] \<rparr>"

text \<open>The day-to-day gains and losses of a close column, as finite numbers: the first
  row has no change, and each later row the rise (or the fall) of the close, or 0.\<close>

definition gains :: "real list \<Rightarrow> real list" where
  "gains cs = map (\<lambda>j. if j = 0 then 0 else max (cs ! j - cs ! (j - 1)) 0) [0 ..< length cs]"

definition losses :: "real list \<Rightarrow> real list" where
  "losses cs = map (\<lambda>j. if j = 0 then 0 else max (cs ! (j - 1) - cs ! j) 0) [0 ..< length cs]"

text \<open>The ratio RS, the variable \<open>rs\<close> of \<open>calculate_rsi\<close>.\<close>

definition rsi_rs :: "fl list \<Rightarrow> nat \<Rightarrow> fl list" where
  "rsi_rs close period = map2 fl_div (rsi_gain close period) (rsi_loss close period)"

text \<open>A frame of one row with a Bollinger position of 90, and six bars whose close
  doubles on the second day.\<close>

definition short_df :: aug where
  "short_df = empty_df \<lparr> BB_Position := [Fin 90], ATR_Percent := [Fin 1] \<rparr>"

definition six_bars :: "bar list" where
  "six_bars =
     map (\<lambda>(d, c). \<lparr> b_date = d, b_open = c, b_high = c, b_low = c, b_close = c,
                        b_volume = 1000 \<rparr>)
         [(1, 10), (2, 20), (3, 20), (4, 20), (5, 20), (6, 20)]"

text \<open>A flat series of 260 bars: every price 100, every volume 5000, one bar a day.\<close>

definition flat_bars :: "bar list" where
  "flat_bars =
     map (\<lambda>d. \<lparr> b_date = int d, b_open = 100, b_high = 100, b_low = 100, b_close = 100,
                   b_volume = 5000 \<rparr>) [0 ..< 260]"




section \<open>Comparisons with NaN\<close>

lemma fl_ge_NaN [simp]: "fl_ge c NaN = False" "fl_ge NaN c = False"
  by (cases c; simp add: fl_ge_def)+

lemma fl_gt_NaN [simp]: "fl_gt c NaN = False" "fl_gt NaN c = False"
  by (cases c; simp add: fl_gt_def)+

lemma fl_le_NaN [simp]: "fl_le c NaN = False"
  by (cases c; simp)

lemma fl_lt_NaN [simp]: "fl_lt c NaN = False"
  by (cases c; simp)

section \<open>Category scores stay within their caps\<close>

lemma pts_zero: "pts 0 0"
  by (simp add: pts_def)

lemma pts_add: "pts a x \<Longrightarrow> pts b y \<Longrightarrow> pts (a + b) (x + y)"
  by (simp add: pts_def)

lemma capped_attempt:
  "pts a s \<Longrightarrow> a \<le> cap \<Longrightarrow> (\<And>v. capped cap (k v)) \<Longrightarrow> capped cap (attempt r s k)"
  by (cases r) (simp_all add: attempt_def capped_def except_log_def pts_def)

lemma capped_Inr: "pts a s \<Longrightarrow> a \<le> cap \<Longrightarrow> capped cap (Inr s)"
  by (simp add: capped_def except_log_def pts_def)

lemma capped_if: "capped cap x \<Longrightarrow> capped cap y \<Longrightarrow> capped cap (if c then x else y)"
  by simp

lemma price_position_pts: "pts 12 (price_position c e s t)"
  by (simp add: price_position_def pts_def)

lemma ma_slopes_pts: "pts 8 (ma_slopes a b c)"
  by (simp add: ma_slopes_def pts_def)

lemma ma_divergence_pts: "pts 5 (ma_divergence a b c)"
  by (simp add: ma_divergence_def Let_def pts_def)

lemma trend_alignment_capped: "capped 25 (trend_alignment_body df)"
  unfolding trend_alignment_body_def Let_def
  by ((rule capped_attempt capped_Inr pts_add pts_zero
        price_position_pts ma_slopes_pts ma_divergence_pts | simp)+)

lemma adx_pts: "pts 10 (adx_points a)"
  by (simp add: adx_points_def pts_def)

lemma di_pts: "pts 5 (di_points a b)"
  by (simp add: di_points_def pts_def)

lemma rsi_pts: "pts 8 (rsi_points a)"
  by (simp add: rsi_points_def pts_def)

lemma roc_pts: "pts 4 (roc_points a)"
  by (simp add: roc_points_def pts_def)

lemma macd_pts: "pts 8 (macd_points a b c d)"
  by (simp add: macd_points_def pts_def)

lemma momentum_strength_capped: "capped 35 (momentum_strength_body df)"
  unfolding momentum_strength_body_def Let_def
  by ((rule capped_attempt capped_Inr pts_add pts_zero
        adx_pts di_pts rsi_pts roc_pts macd_pts | simp)+)

lemma vol_surge_pts: "pts 8 (vol_surge_points a)"
  by (simp add: vol_surge_points_def pts_def)

lemma obv_pts: "pts 6 (obv_points a b c)"
  by (simp add: obv_points_def pts_def)

lemma vol_price_pts: "pts 6 (vol_price_points a b)"
  by (simp add: vol_price_points_def pts_def)

lemma volume_liquidity_capped: "capped 20 (volume_liquidity_body df)"
  unfolding volume_liquidity_body_def Let_def
  by ((rule capped_attempt capped_Inr pts_add pts_zero
        vol_surge_pts obv_pts vol_price_pts | simp)+)

lemma weekly_pts: "pts 10 (weekly_momentum_points a)"
  by (simp add: weekly_momentum_points_def pts_def Let_def)

lemma breakout_pts: "pts 8 (breakout_points a b c d e)"
  by (simp add: breakout_points_def pts_def)

lemma low_trend_pts: "pts 7 (low_trend_points a)"
  by (simp add: low_trend_points_def pts_def)

lemma price_action_capped: "capped 25 (price_action_breakouts_body pf df)"
  unfolding price_action_breakouts_body_def Let_def
  by ((rule capped_attempt capped_Inr capped_if pts_add pts_zero
        weekly_pts breakout_pts low_trend_pts | simp)+)

lemma bb_pts: "pts 6 (bb_points a)"
  by (simp add: bb_points_def pts_def)

lemma atr_pts: "pts 4 (atr_points a b)"
  by (simp add: atr_points_def pts_def Let_def)

lemma volatility_capped: "capped 10 (volatility_risk_body df)"
  unfolding volatility_risk_body_def Let_def
  by ((rule capped_attempt capped_Inr pts_add pts_zero bb_pts atr_pts | simp)+)

lemma ichimoku_pts: "pts 5 (ichimoku_points a b c)"
  by (simp add: ichimoku_points_def pts_def Let_def)

lemma ichimoku_capped: "capped 5 (ichimoku_body df)"
  unfolding ichimoku_body_def Let_def
  by ((rule capped_attempt capped_Inr pts_add pts_zero ichimoku_pts | simp)+)

text \<open>
  Claim C1. For every augmented series (and whatever the least-squares fit returns),
  \<open>calculate_total_score\<close> returns a result whose six category scores lie between 0 and
  the caps 25, 35, 20, 25, 10 and 5, and whose total is exactly their sum, hence
  between 0 and 120.
\<close>

theorem category_scores_within_caps:
  "\<exists>r a b c d e f.
     calculate_total_score polyfit df = Some r \<and>
     category_scores r =
       [(''Trend Alignment'', a), (''Momentum & Strength'', b),
        (''Volume & Liquidity'', c), (''Price Action & Breakouts'', d),
        (''Volatility & Risk'', e), (''Ichimoku Cloud'', f)] \<and>
     0 \<le> a \<and> a \<le> 25 \<and> 0 \<le> b \<and> b \<le> 35 \<and> 0 \<le> c \<and> c \<le> 20 \<and>
     0 \<le> d \<and> d \<le> 25 \<and> 0 \<le> e \<and> e \<le> 10 \<and> 0 \<le> f \<and> f \<le> 5 \<and>
     total_score r = a + b + c + d + e + f \<and>
     0 \<le> total_score r \<and> total_score r \<le> 120"
  using trend_alignment_capped [of df] momentum_strength_capped [of df]
    volume_liquidity_capped [of df] price_action_capped [of polyfit df]
    volatility_capped [of df] ichimoku_capped [of df]
  by (simp add: calculate_total_score_def Let_def capped_def pts_def
      score_trend_alignment_def score_momentum_strength_def score_volume_liquidity_def
      score_price_action_breakouts_def score_volatility_risk_def score_ichimoku_def)

section \<open>Classification\<close>

lemma scores_of_empty_df:
  "score_trend_alignment empty_df = 0"
  "score_momentum_strength empty_df = 0"
  "score_volume_liquidity empty_df = 0"
  "score_price_action_breakouts pf empty_df = 0"
  "score_volatility_risk empty_df = 0"
  "score_ichimoku empty_df = 0"
  by (simp_all add: empty_df_def iloc_def attempt_def except_log_def
      score_trend_alignment_def score_momentum_strength_def score_volume_liquidity_def
      score_price_action_breakouts_def score_volatility_risk_def score_ichimoku_def
      trend_alignment_body_def momentum_strength_body_def volume_liquidity_body_def
      price_action_breakouts_body_def volatility_risk_body_def ichimoku_body_def
      rolling_mean_def rolling_def)

text \<open>
  Claim C6. The label of a total score s is "Exceptional" from 100 up, "Very High" from
  85 to below 100, "High" from 70 to below 85, "Medium" from 55 to below 70, "Low" from
  40 to below 55 and "Weak" below 40: every tier includes its lower bound, so 100 is
  "Exceptional". The label of a result is the label of its total.
\<close>

theorem classification_thresholds:
  "(100 \<le> s \<longrightarrow> fst (classify s) = ''Exceptional'') \<and>
   (85 \<le> s \<and> s < 100 \<longrightarrow> fst (classify s) = ''Very High'') \<and>
   (70 \<le> s \<and> s < 85 \<longrightarrow> fst (classify s) = ''High'') \<and>
   (55 \<le> s \<and> s < 70 \<longrightarrow> fst (classify s) = ''Medium'') \<and>
   (40 \<le> s \<and> s < 55 \<longrightarrow> fst (classify s) = ''Low'') \<and>
   (s < 40 \<longrightarrow> fst (classify s) = ''Weak'') \<and>
   (calculate_total_score polyfit df = Some r \<longrightarrow>
      classification r = fst (classify (total_score r)))"
  by (auto simp add: classify_def calculate_total_score_def Let_def)

theorem classification_thresholds_witness:
  "fst (classify 100) = ''Exceptional'' \<and> fst (classify 120) = ''Exceptional'' \<and>
   fst (classify 99) = ''Very High'' \<and> fst (classify 85) = ''Very High'' \<and>
   fst (classify 84) = ''High'' \<and> fst (classify 70) = ''High'' \<and>
   fst (classify 69) = ''Medium'' \<and> fst (classify 55) = ''Medium'' \<and>
   fst (classify 54) = ''Low'' \<and> fst (classify 40) = ''Low'' \<and>
   fst (classify 39) = ''Weak'' \<and> fst (classify 0) = ''Weak'' \<and>
   classification (the (calculate_total_score polyfit_raises empty_df)) = ''Weak''"
  using classification_thresholds [of 100] classification_thresholds [of 120]
    classification_thresholds [of 99] classification_thresholds [of 85]
    classification_thresholds [of 84] classification_thresholds [of 70]
    classification_thresholds [of 69] classification_thresholds [of 55]
    classification_thresholds [of 54] classification_thresholds [of 40]
    classification_thresholds [of 39]
    classification_thresholds [of 0 polyfit_raises empty_df
       "the (calculate_total_score polyfit_raises empty_df)"]
  by (simp add: calculate_total_score_def Let_def scores_of_empty_df)

section \<open>Exponential moving average\<close>

lemma prep_values_Fin [simp]: "prep_values (map Fin cs) = map Fin cs"
  by (simp add: prep_values_def)

lemma ewm_from_Fin:
  "ewm_from alpha (Fin w) 1 (map Fin cs) = map Fin (ema_from alpha w cs)"
proof (induction cs arbitrary: w)
  case Nil
  show ?case by simp
next
  case (Cons c cs)
  have "((1 - alpha) * w + alpha * c) / (1 - alpha + alpha) = alpha * c + (1 - alpha) * w"
    by simp
  then show ?case using Cons.IH by (simp add: Let_def add.commute)
qed

lemma ewm_values_Fin: "ewm_values alpha (map Fin cs) = map Fin (ema alpha cs)"
proof (cases cs)
  case Nil
  then show ?thesis by (simp add: ewm_values_def ema_def prep_values_def)
next
  case (Cons c rest)
  have "prep_values (map Fin cs) = Fin c # map Fin rest"
    unfolding prep_values_Fin using Cons by simp
  then show ?thesis using Cons by (simp add: ewm_values_def ema_def ewm_from_Fin)
qed

lemma length_ema_from [simp]: "length (ema_from alpha w cs) = length cs"
  by (induction cs arbitrary: w) simp_all

lemma length_ema [simp]: "length (ema alpha cs) = length cs"
  by (cases cs) (simp_all add: ema_def)

lemma ema_from_step:
  "i < length cs \<Longrightarrow>
   (w # ema_from alpha w cs) ! Suc i = alpha * cs ! i + (1 - alpha) * (w # ema_from alpha w cs) ! i"
proof (induction cs arbitrary: w i)
  case Nil
  then show ?case by simp
next
  case (Cons c cs)
  show ?case
  proof (cases i)
    case 0
    then show ?thesis by simp
  next
    case (Suc j)
    with Cons.prems have "j < length cs" by simp
    from Cons.IH [OF this, of "alpha * c + (1 - alpha) * w"] Suc show ?thesis by simp
  qed
qed

lemma ema_step:
  assumes "0 < i" "i < length cs"
  shows "ema alpha cs ! i = alpha * cs ! i + (1 - alpha) * ema alpha cs ! (i - 1)"
proof (cases cs)
  case Nil
  with assms show ?thesis by simp
next
  case (Cons c rest)
  from assms obtain j where j: "i = Suc j" by (cases i) auto
  with assms Cons have "j < length rest" by simp
  from ema_from_step [OF this, of c alpha] j Cons show ?thesis by (simp add: ema_def)
qed

lemma ema_0: "cs \<noteq> [] \<Longrightarrow> ema alpha cs ! 0 = cs ! 0"
  by (cases cs) (simp_all add: ema_def)

text \<open>
  Claim C7. For a non-empty close series and a period p of at least 1, the EMA column is
  defined at every index: it starts at the first close, and each later value is
  \<open>alpha * close + (1 - alpha) * previous EMA\<close> with \<open>alpha = 2 / (p + 1)\<close>.
\<close>

theorem ema_recursion:
  assumes "1 \<le> p" and "closes \<noteq> []"
  shows "\<exists>e. calculate_ema (map Fin closes) p = Some (map Fin e) \<and>
             length e = length closes \<and>
             e ! 0 = closes ! 0 \<and>
             (\<forall>i. 0 < i \<and> i < length closes \<longrightarrow>
                e ! i = 2 / (real p + 1) * closes ! i
                        + (1 - 2 / (real p + 1)) * e ! (i - 1))"
proof (intro exI conjI)
  show "calculate_ema (map Fin closes) p = Some (map Fin (ema (2 / (real p + 1)) closes))"
    using assms(1) by (simp add: calculate_ema_def ewm_mean_def ewm_values_Fin)
  show "length (ema (2 / (real p + 1)) closes) = length closes" by simp
  show "ema (2 / (real p + 1)) closes ! 0 = closes ! 0" using assms(2) by (rule ema_0)
  show "\<forall>i. 0 < i \<and> i < length closes \<longrightarrow>
          ema (2 / (real p + 1)) closes ! i =
          2 / (real p + 1) * closes ! i + (1 - 2 / (real p + 1)) * ema (2 / (real p + 1)) closes ! (i - 1)"
    using ema_step by blast
qed

theorem ema_recursion_witness:
  "(1::nat) \<le> 3 \<and> [10, 12, 11 :: real] \<noteq> [] \<and>
   calculate_ema (map Fin [10, 12, 11]) 3 = Some (map Fin [10, 11, 11])"
proof -
  have a: "(1::nat) \<le> 3" by simp
  have b: "[10, 12, 11 :: real] \<noteq> []" by simp
  from ema_recursion [OF a b] obtain e where
    e: "calculate_ema (map Fin [10, 12, 11]) 3 = Some (map Fin e)"
      "length e = 3" "e ! 0 = 10"
      "\<forall>i. 0 < i \<and> i < 3 \<longrightarrow> e ! i = 2 / (real 3 + 1) * [10, 12, 11] ! i + (1 - 2 / (real 3 + 1)) * e ! (i - 1)"
    by auto
  from e(4) have "e ! 1 = 11" using e(3) by simp
  moreover from e(4) have "e ! 2 = 2 / 4 * 11 + (1 - 2 / 4) * e ! 1" by (simp add: numeral_2_eq_2)
  ultimately have "e ! 2 = 11" by simp
  with \<open>e ! 1 = 11\<close> e(2,3) have "e = [10, 11, 11]"
    by (auto simp add: list_eq_iff_nth_eq less_Suc_eq numeral_3_eq_3 numeral_2_eq_2)
  with e(1) show ?thesis by simp
qed

section \<open>The columns of the indicator engine\<close>

lemma engine_fields:
  assumes "calculate_all_indicators bars = Some a"
  shows "Close a = close_col bars"
    and "High a = high_col bars"
    and "Low a = low_col bars"
    and "Volume a = volume_col bars"
    and "EMA_20 a = ewm_values (2 / 21) (close_col bars)"
    and "SMA_50 a = rolling_mean 50 (close_col bars)"
    and "SMA_200 a = rolling_mean 200 (close_col bars)"
    and "EMA_20_slope a = scale 100 (pct_change 5 (ewm_values (2 / 21) (close_col bars)))"
    and "SMA_50_slope a = scale 100 (pct_change 5 (rolling_mean 50 (close_col bars)))"
    and "SMA_200_slope a = scale 100 (pct_change 5 (rolling_mean 200 (close_col bars)))"
    and "RSI a = calculate_rsi (close_col bars) 14"
    and "ROC a = calculate_roc (close_col bars) 10"
    and "MACD a = macd_col bars"
    and "MACD_Signal a = ewm_values (2 / 10) (macd_col bars)"
    and "MACD_Hist a = hist_col bars"
    and "Hist_Momentum a = diff 3 (hist_col bars)"
    and "ADX a = fst (calculate_adx (high_col bars) (low_col bars) (close_col bars) 14)"
    and "Plus_DI a = fst (snd (calculate_adx (high_col bars) (low_col bars) (close_col bars) 14))"
    and "Minus_DI a = snd (snd (calculate_adx (high_col bars) (low_col bars) (close_col bars) 14))"
    and "DI_Spread a = map2 fl_sub (Plus_DI a) (Minus_DI a)"
    and "ADX_Rising a = map (\<lambda>d. fl_gt d (Fin 0)) (diff 3 (ADX a))"
    and "Vol_SMA_20 a = rolling_mean 20 (volume_col bars)"
    and "Vol_SMA_50 a = rolling_mean 50 (volume_col bars)"
    and "Vol_Ratio a = scale 100 (map2 fl_div (volume_col bars) (rolling_mean 20 (volume_col bars)))"
    and "OBV a = calculate_obv (close_col bars) (volume_col bars)"
    and "OBV_EMA a = ewm_values (2 / 21) (calculate_obv (close_col bars) (volume_col bars))"
    and "BB_Middle a = rolling_mean 20 (close_col bars)"
    and "BB_Upper a = map2 fl_add (rolling_mean 20 (close_col bars)) (scale 2 (rolling_std 20 (close_col bars)))"
    and "BB_Lower a = map2 fl_sub (rolling_mean 20 (close_col bars)) (scale 2 (rolling_std 20 (close_col bars)))"
    and "BB_Position a = scale 100 (map2 fl_div (map2 fl_sub (close_col bars) (BB_Lower a))
                                   (map2 fl_sub (BB_Upper a) (BB_Lower a)))"
    and "ATR a = rolling_mean 14 (true_range (high_col bars) (low_col bars) (close_col bars))"
    and "ATR_Percent a = scale 100 (map2 fl_div (ATR a) (close_col bars))"
    and "High_52W a = rolling_max 252 (high_col bars)"
    and "High_4W a = rolling_max 20 (high_col bars)"
    and "High_2W a = rolling_max 10 (high_col bars)"
  using assms
  by (auto simp add: calculate_all_indicators_def calculate_macd_def calculate_ema_def
      ewm_mean_def calculate_sma_def calculate_bollinger_bands_def calculate_atr_def
      calculate_adx_def Let_def close_col_def high_col_def low_col_def volume_col_def
      macd_col_def hist_col_def split_def)

lemma engine_Some: "\<exists>a. calculate_all_indicators bars = Some a"
  by (simp add: calculate_all_indicators_def calculate_macd_def calculate_ema_def
      ewm_mean_def Let_def split_def)

lemma length_rolling [simp]: "length (rolling f n xs) = length xs"
  by (simp add: rolling_def)

lemma length_rolling_mean [simp]: "length (rolling_mean n xs) = length xs"
  by (simp add: rolling_mean_def)

lemma length_rolling_max [simp]: "length (rolling_max n xs) = length xs"
  by (simp add: rolling_max_def)

lemma length_rolling_std [simp]: "length (rolling_std n xs) = length xs"
  by (simp add: rolling_std_def)

lemma length_shift [simp]: "length (shift k xs) = length xs"
  by (simp add: shift_def)

lemma length_diff [simp]: "length (diff k xs) = length xs"
  by (simp add: diff_def)

lemma length_pct_change [simp]: "length (pct_change k xs) = length xs"
  by (simp add: pct_change_def)

lemma length_scale [simp]: "length (scale c xs) = length xs"
  by (simp add: scale_def)

lemma length_row_max3 [simp]:
  "length (row_max3 xs ys zs) = min (min (length xs) (length ys)) (length zs)"
  by (simp add: row_max3_def)

lemma length_fillna [simp]: "length (fillna c xs) = length xs"
  by (simp add: fillna_def)

lemma length_cumsum_from [simp]: "length (cumsum_from acc xs) = length xs"
  by (induction xs arbitrary: acc) simp_all

lemma length_cumsum [simp]: "length (cumsum xs) = length xs"
  by (simp add: cumsum_def)

lemma length_ewm_from [simp]: "length (ewm_from alpha w ow xs) = length xs"
  by (induction xs arbitrary: w ow) (simp_all add: Let_def split: fl.splits)

lemma length_prep_values [simp]: "length (prep_values xs) = length xs"
  by (simp add: prep_values_def)

lemma length_ewm_values [simp]: "length (ewm_values alpha xs) = length xs"
proof (cases "prep_values xs")
  case Nil
  then have "length xs = 0" by (metis length_prep_values list.size(3))
  with Nil show ?thesis by (simp add: ewm_values_def)
next
  case (Cons y ys)
  then have "length xs = Suc (length ys)" by (metis length_prep_values length_Cons)
  with Cons show ?thesis by (simp add: ewm_values_def)
qed

lemma length_true_range [simp]:
  "length h = n \<Longrightarrow> length l = n \<Longrightarrow> length c = n \<Longrightarrow> length (true_range h l c) = n"
  by (simp add: true_range_def Let_def)

lemma length_calculate_rsi [simp]: "length (calculate_rsi c p) = length c"
  by (simp add: calculate_rsi_def rsi_gain_def rsi_loss_def Let_def)

lemma length_calculate_roc [simp]: "length (calculate_roc c p) = length c"
  by (simp add: calculate_roc_def)

lemma length_calculate_obv [simp]: "length v = length c \<Longrightarrow> length (calculate_obv c v) = length c"
  by (simp add: calculate_obv_def)

lemma length_calculate_adx:
  assumes "length h = n" "length l = n" "length c = n"
  shows "length (fst (calculate_adx h l c p)) = n"
    and "length (fst (snd (calculate_adx h l c p))) = n"
    and "length (snd (snd (calculate_adx h l c p))) = n"
  using assms by (simp_all add: calculate_adx_def Let_def)

lemma length_cols [simp]:
  "length (close_col bars) = length bars" "length (high_col bars) = length bars"
  "length (low_col bars) = length bars" "length (volume_col bars) = length bars"
  by (simp_all add: close_col_def high_col_def low_col_def volume_col_def)

lemma length_macd_col [simp]: "length (macd_col bars) = length bars"
  by (simp add: macd_col_def)

lemma length_hist_col [simp]: "length (hist_col bars) = length bars"
  by (simp add: hist_col_def)

lemma engine_aligned:
  assumes "calculate_all_indicators bars = Some a"
  shows "aligned (length bars) a"
proof -
  note f = engine_fields [OF assms]
  have adx: "length (ADX a) = length bars" "length (Plus_DI a) = length bars"
    "length (Minus_DI a) = length bars"
    unfolding f by (rule length_calculate_adx; simp)+
  have o: "length (Open a) = length bars"
    using assms
    by (auto simp add: calculate_all_indicators_def calculate_macd_def calculate_ema_def
      ewm_mean_def Let_def split_def)
  have bb: "length (BB_Upper a) = length bars" "length (BB_Lower a) = length bars"
    unfolding f by simp_all
  have atr: "length (ATR a) = length bars"
    unfolding f by simp
  show ?thesis
    unfolding aligned_def
    apply (intro conjI)
    apply (simp_all add: o adx bb atr f(20,21,30,32))
    apply (simp_all add: f)
    done
qed

lemma nth_rolling_early:
  "i < length xs \<Longrightarrow> i + 1 < n \<Longrightarrow> rolling f n xs ! i = NaN"
  by (simp add: rolling_def)

lemma nth_rolling:
  "i < length xs \<Longrightarrow> n \<le> i + 1 \<Longrightarrow>
   rolling f n xs ! i =
     (if list_all is_fin (take n (drop (i + 1 - n) xs))
      then Fin (f (map fin_val (take n (drop (i + 1 - n) xs)))) else NaN)"
  by (simp add: rolling_def Let_def)

lemma iloc_minus1: "xs \<noteq> [] \<Longrightarrow> iloc xs (- 1) = Some (xs ! (length xs - 1))"
  by (cases xs) (auto simp add: iloc_def Let_def nat_diff_distrib)

lemma iloc_Nil [simp]: "iloc [] i = None"
  by (simp add: iloc_def)

lemma engine_empty: "calculate_all_indicators [] = Some empty_df"
proof -
  obtain a where a: "calculate_all_indicators [] = Some a"
    using engine_Some by blast
  from engine_aligned [OF a] have "aligned 0 a" by simp
  then have "a = empty_df"
    unfolding aligned_def empty_df_def length_0_conv
    by (cases a) simp
  with a show ?thesis by simp
qed

text \<open>
  Claim C4, as amended. The indicator engine never signals an error: for every series,
  short, empty or violating the invariants of the data model, it returns a frame with
  one row per bar in every column, undefined (NaN) where the lookback is insufficient.
\<close>

theorem engine_never_fails:
  "\<exists>a. calculate_all_indicators bars = Some a \<and> aligned (length bars) a \<and>
       (\<forall>i < length bars. (i < 49 \<longrightarrow> SMA_50 a ! i = NaN) \<and>
                           (i < 199 \<longrightarrow> SMA_200 a ! i = NaN) \<and>
                           (i < 251 \<longrightarrow> High_52W a ! i = NaN))"
proof -
  obtain a where a: "calculate_all_indicators bars = Some a"
    using engine_Some by blast
  note f = engine_fields [OF a]
  have "\<forall>i < length bars. (i < 49 \<longrightarrow> SMA_50 a ! i = NaN) \<and>
                           (i < 199 \<longrightarrow> SMA_200 a ! i = NaN) \<and>
                           (i < 251 \<longrightarrow> High_52W a ! i = NaN)"
    unfolding f rolling_mean_def rolling_max_def
    by (simp add: nth_rolling_early)
  with a engine_aligned [OF a] show ?thesis by blast
qed

theorem engine_never_fails_witness:
  "calculate_all_indicators [bar1] \<noteq> None \<and>
   length (RSI (the (calculate_all_indicators [bar1]))) = 1 \<and>
   SMA_200 (the (calculate_all_indicators [bar1])) ! 0 = NaN"
  using engine_never_fails [of "[bar1]"]
  by (auto simp add: aligned_def)

text \<open>
  Claim C4 as stated fails: for the empty series the engine returns the empty frame,
  not an error.
\<close>

theorem engine_empty_counterexample:
  "calculate_all_indicators [] = Some empty_df"
  by (rule engine_empty)

section \<open>Price position against the moving averages\<close>

text \<open>
  Claim C10. The price-position sub-rule awards nothing when EMA20, SMA50 or SMA200 is
  undefined at the last index. For a series of fewer than 200 bars SMA200 is undefined
  there, so the sub-rule (and the spacing sub-rule with it) contributes nothing and the
  trend-alignment score is the slope sub-rule alone, wherever the close stands against
  SMA50.
\<close>

theorem price_position_undefined_average:
  "(ema20 = NaN \<or> sma50 = NaN \<or> sma200 = NaN \<longrightarrow>
      price_position current ema20 sma50 sma200 = 0) \<and>
   (calculate_all_indicators bars = Some a \<and> bars \<noteq> [] \<and> length bars < 200 \<longrightarrow>
      iloc (SMA_200 a) (- 1) = Some NaN \<and>
      score_trend_alignment a =
        ma_slopes (EMA_20_slope a ! (length bars - 1)) (SMA_50_slope a ! (length bars - 1))
                  (SMA_200_slope a ! (length bars - 1)))"
proof (intro conjI impI)
  assume "ema20 = NaN \<or> sma50 = NaN \<or> sma200 = NaN"
  then show "price_position current ema20 sma50 sma200 = 0"
    by (auto simp add: price_position_def notna_def)
next
  assume h: "calculate_all_indicators bars = Some a \<and> bars \<noteq> [] \<and> length bars < 200"
  then have a: "calculate_all_indicators bars = Some a" and ne: "bars \<noteq> []"
    and short: "length bars < 200" by simp_all
  note f = engine_fields [OF a]
  from engine_aligned [OF a] have len:
    "length (Close a) = length bars" "length (EMA_20 a) = length bars"
    "length (SMA_50 a) = length bars" "length (SMA_200 a) = length bars"
    "length (EMA_20_slope a) = length bars" "length (SMA_50_slope a) = length bars"
    "length (SMA_200_slope a) = length bars"
    by (simp_all add: aligned_def)
  define k where "k = length bars - 1"
  from ne short have k: "k < length bars" "k + 1 < 200" by (simp_all add: k_def)
  have nan: "SMA_200 a ! k = NaN"
    unfolding f(7) rolling_mean_def using k by (simp add: nth_rolling_early)
  have il: "iloc col (- 1) = Some (col ! k)" if "length col = length bars" for col :: "fl list"
  proof -
    from that ne have "col \<noteq> []" by auto
    from iloc_minus1 [OF this] that show ?thesis by (simp add: k_def)
  qed
  have pp: "price_position c e s (SMA_200 a ! k) = 0" for c e s
    by (simp add: nan price_position_def notna_def)
  have md: "ma_divergence e s (SMA_200 a ! k) = 0" for e s
    by (simp add: nan ma_divergence_def notna_def)
  show "iloc (SMA_200 a) (- 1) = Some NaN"
    using il [OF len(4)] nan by simp
  have "trend_alignment_body a =
        Inr (ma_slopes (EMA_20_slope a ! k) (SMA_50_slope a ! k) (SMA_200_slope a ! k))"
    unfolding trend_alignment_body_def attempt_def Let_def
      il [OF len(1)] il [OF len(2)] il [OF len(3)] il [OF len(4)] il [OF len(5)]
      il [OF len(6)] il [OF len(7)]
    by (simp add: pp md)
  then show "score_trend_alignment a =
        ma_slopes (EMA_20_slope a ! (length bars - 1)) (SMA_50_slope a ! (length bars - 1))
                  (SMA_200_slope a ! (length bars - 1))"
    by (simp add: score_trend_alignment_def except_log_def k_def)
qed

theorem price_position_undefined_average_witness:
  "price_position (Fin 110) (Fin 105) (Fin 100) NaN = 0 \<and>
   fl_gt (Fin 110) (Fin 100) \<and>
   iloc (SMA_200 (the (calculate_all_indicators [bar1]))) (- 1) = Some NaN"
proof -
  obtain a where a: "calculate_all_indicators [bar1] = Some a"
    using engine_Some by blast
  from price_position_undefined_average [of "Fin 105" "Fin 100" NaN "Fin 110" "[bar1]" a] a
  show ?thesis by (simp add: fl_gt_def)
qed

section \<open>Breakout quality\<close>

lemma breakout_df_cols:
  "Close breakout_df = [Fin 99, Fin 100]"
  "Vol_Ratio breakout_df = [Fin 100, Fin 160]"
  "High_52W breakout_df = [Fin 100, Fin 101]"
  "High_4W breakout_df = [Fin 100, Fin 101]"
  "High_2W breakout_df = [Fin 100, Fin 101]"
  "Low breakout_df = [Fin 98, Fin 99]"
  "High breakout_df = [Fin 100, Fin 101]"
  by (simp_all add: breakout_df_def empty_df_def)

lemma breakout_points_tiers:
  "breakout_points current high_52w high_4w high_2w vol_ratio =
     (if fl_ge current (fl_mul high_52w (Fin 0.995)) \<and> fl_gt vol_ratio (Fin 150) then 8
      else if fl_ge current (fl_mul high_4w (Fin 0.995)) then 7
      else if fl_ge current (fl_mul high_2w (Fin 0.995)) then 5
      else 0)"
  by (cases high_52w; cases high_4w; cases high_2w; simp add: breakout_points_def notna_def)

text \<open>
  Claim C8. With the latest close, the latest volume ratio and the rolling highs of the
  prior bar (index -2) read from the frame, the breakout sub-rule adds to the category
  score, first match winning: 8 points if the close is at least 0.995 times the prior
  52-week high and the volume ratio exceeds 150; otherwise 7 points if the close is at
  least 0.995 times the prior 4-week high; otherwise 5 points for the prior 2-week high;
  otherwise 0. (The other two summands are the weekly-momentum and the low-trend
  sub-rules.)
\<close>

theorem breakout_quality_tiers:
  assumes "iloc (Close df) (- 1) = Some current"
    and "iloc (High_52W df) (- 2) = Some high_52w"
    and "iloc (High_4W df) (- 2) = Some high_4w"
    and "iloc (High_2W df) (- 2) = Some high_2w"
    and "iloc (Vol_Ratio df) (- 1) = Some vol_ratio"
  shows "\<exists>rest. score_price_action_breakouts polyfit df =
           weekly_momentum_points (Close df)
           + (if fl_ge current (fl_mul high_52w (Fin 0.995)) \<and> fl_gt vol_ratio (Fin 150) then 8
              else if fl_ge current (fl_mul high_4w (Fin 0.995)) then 7
              else if fl_ge current (fl_mul high_2w (Fin 0.995)) then 5
              else 0)
           + rest \<and> (rest = 0 \<or> rest = 3 \<or> rest = 7)"
  unfolding score_price_action_breakouts_def price_action_breakouts_body_def
    breakout_points_tiers [symmetric]
  using assms
  by (cases "polyfit (iloc_last 20 (Low df))")
     (auto simp add: attempt_def except_log_def Let_def low_trend_points_def)

theorem breakout_quality_tiers_witness:
  "iloc (Close breakout_df) (- 1) = Some (Fin 100) \<and>
   iloc (High_52W breakout_df) (- 2) = Some (Fin 100) \<and>
   iloc (High_4W breakout_df) (- 2) = Some (Fin 100) \<and>
   iloc (High_2W breakout_df) (- 2) = Some (Fin 100) \<and>
   iloc (Vol_Ratio breakout_df) (- 1) = Some (Fin 160) \<and>
   score_price_action_breakouts polyfit_raises breakout_df = 0 + 8 + 0"
proof -
  have r: "iloc (Close breakout_df) (- 1) = Some (Fin 100)"
    "iloc (High_52W breakout_df) (- 2) = Some (Fin 100)"
    "iloc (High_4W breakout_df) (- 2) = Some (Fin 100)"
    "iloc (High_2W breakout_df) (- 2) = Some (Fin 100)"
    "iloc (Vol_Ratio breakout_df) (- 1) = Some (Fin 160)"
    by (simp_all add: breakout_df_cols iloc_def)
  have w: "weekly_momentum_points (Close breakout_df) = 0"
    by (simp add: breakout_df_cols weekly_momentum_points_def iloc_last_def fl_gt_def)
  have p: "score_price_action_breakouts polyfit_raises breakout_df = 8"
    unfolding score_price_action_breakouts_def price_action_breakouts_body_def r w
    by (simp add: attempt_def except_log_def polyfit_raises_def iloc_last_def
        breakout_df_cols breakout_points_def notna_def fl_ge_def fl_gt_def)
  from breakout_quality_tiers [OF r, of polyfit_raises] r p show ?thesis
    by simp
qed

section \<open>Entries of the derived columns\<close>

lemma nth_shift:
  "i < length xs \<Longrightarrow> shift k xs ! i = (if i < k then NaN else xs ! (i - k))"
  by (auto simp add: shift_def nth_append min_def)

lemma nth_diff:
  "i < length xs \<Longrightarrow> diff k xs ! i = (if i < k then NaN else fl_sub (xs ! i) (xs ! (i - k)))"
  by (cases "xs ! i") (simp_all add: diff_def nth_shift fl_sub_def)

lemma nth_scale: "i < length xs \<Longrightarrow> scale c xs ! i = fl_mul (xs ! i) (Fin c)"
  by (simp add: scale_def)

lemma nth_pct_change:
  "i < length xs \<Longrightarrow>
   pct_change k xs ! i =
     (if i < k then NaN else fl_sub (fl_div (xs ! i) (xs ! (i - k))) (Fin 1))"
  by (cases "xs ! i") (simp_all add: pct_change_def nth_shift fl_sub_def)

lemma window_Fin:
  "list_all is_fin (take n (drop k (map Fin ys)))"
  "map fin_val (take n (drop k (map Fin ys))) = take n (drop k ys)"
proof -
  have e: "take n (drop k (map Fin ys)) = map Fin (take n (drop k ys))"
    by (simp add: take_map drop_map)
  show "list_all is_fin (take n (drop k (map Fin ys)))"
    unfolding e by (simp add: list_all_iff)
  show "map fin_val (take n (drop k (map Fin ys))) = take n (drop k ys)"
    unfolding e by (simp add: comp_def)
qed

lemma nth_rolling_Fin:
  "i < length ys \<Longrightarrow> n \<le> i + 1 \<Longrightarrow>
   rolling f n (map Fin ys) ! i = Fin (f (take n (drop (i + 1 - n) ys)))"
  by (simp add: nth_rolling window_Fin)

lemma length_window:
  "i < length ys \<Longrightarrow> n \<le> i + 1 \<Longrightarrow> length (take n (drop (i + 1 - n) ys)) = n"
  by simp

lemma gains_col:
  "map (\<lambda>d. if fl_gt d (Fin 0) then d else Fin 0) (diff 1 (map Fin cs)) = map Fin (gains cs)"
  by (rule nth_equalityI) (auto simp add: gains_def nth_diff fl_sub_def fl_gt_def max_def)

lemma losses_col:
  "map fl_neg (map (\<lambda>d. if fl_lt d (Fin 0) then d else Fin 0) (diff 1 (map Fin cs)))
   = map Fin (losses cs)"
  by (rule nth_equalityI) (auto simp add: losses_def nth_diff fl_sub_def max_def)

lemma mean_list_nonneg: "\<forall>x \<in> set w. 0 \<le> x \<Longrightarrow> 0 \<le> mean_list w"
  by (simp add: mean_list_def sum_list_nonneg)

lemma gains_nonneg: "\<forall>x \<in> set (gains cs). 0 \<le> x"
  by (auto simp add: gains_def)

lemma losses_nonneg: "\<forall>x \<in> set (losses cs). 0 \<le> x"
  by (auto simp add: losses_def)

lemma length_gains [simp]: "length (gains cs) = length cs"
  by (simp add: gains_def)

lemma length_losses [simp]: "length (losses cs) = length cs"
  by (simp add: losses_def)

lemma rsi_gain_nth:
  "i < length cs \<Longrightarrow> p \<le> i + 1 \<Longrightarrow>
   rsi_gain (map Fin cs) p ! i = Fin (mean_list (take p (drop (i + 1 - p) (gains cs))))"
  unfolding rsi_gain_def gains_col rolling_mean_def by (simp add: nth_rolling_Fin)

lemma rsi_loss_nth:
  "i < length cs \<Longrightarrow> p \<le> i + 1 \<Longrightarrow>
   rsi_loss (map Fin cs) p ! i = Fin (mean_list (take p (drop (i + 1 - p) (losses cs))))"
  unfolding rsi_loss_def losses_col rolling_mean_def by (simp add: nth_rolling_Fin)

lemma rsi_nth:
  "i < length cs \<Longrightarrow>
   calculate_rsi (map Fin cs) p ! i =
     fl_sub (Fin 100) (fl_div (Fin 100)
       (fl_add (Fin 1) (fl_div (rsi_gain (map Fin cs) p ! i) (rsi_loss (map Fin cs) p ! i))))"
  by (simp add: calculate_rsi_def Let_def rsi_gain_def rsi_loss_def rolling_mean_def)

lemma rsi_gain_nonneg:
  assumes "i < length cs" and "p \<le> i + 1"
  shows "\<exists>G. 0 \<le> G \<and> rsi_gain (map Fin cs) p ! i = Fin G"
proof -
  have "0 \<le> mean_list (take p (drop (i + 1 - p) (gains cs)))"
    by (rule mean_list_nonneg) (meson gains_nonneg in_set_takeD in_set_dropD)
  with rsi_gain_nth [OF assms] show ?thesis by blast
qed

lemma gains_flat: "gains (replicate n c) = replicate n 0"
  by (rule nth_equalityI) (simp_all add: gains_def)

lemma losses_flat: "losses (replicate n c) = replicate n 0"
  by (rule nth_equalityI) (simp_all add: losses_def)

lemma mean_list_replicate: "0 < m \<Longrightarrow> mean_list (replicate m x) = x"
  by (simp add: mean_list_def sum_list_replicate)

lemma rsi_flat:
  assumes "i < n" and "1 \<le> p" and "p \<le> i + 1"
  shows "rsi_gain (replicate n (Fin c)) p ! i = Fin 0"
    and "rsi_loss (replicate n (Fin c)) p ! i = Fin 0"
    and "calculate_rsi (replicate n (Fin c)) p ! i = NaN"
proof -
  have r: "replicate n (Fin c) = map Fin (replicate n c)" by simp
  have m: "min p (n - (i + 1 - p)) = p" using assms by simp
  show g: "rsi_gain (replicate n (Fin c)) p ! i = Fin 0"
    unfolding r using assms
    by (simp add: rsi_gain_nth gains_flat m mean_list_replicate del: map_replicate)
  show l: "rsi_loss (replicate n (Fin c)) p ! i = Fin 0"
    unfolding r using assms
    by (simp add: rsi_loss_nth losses_flat m mean_list_replicate del: map_replicate)
  show "calculate_rsi (replicate n (Fin c)) p ! i = NaN"
    using g l assms(1) unfolding r
    by (simp add: rsi_nth fl_sub_def del: map_replicate)
qed

lemma calculate_rsi_rs:
  "calculate_rsi close period =
     map (\<lambda>r. fl_sub (Fin 100) (fl_div (Fin 100) (fl_add (Fin 1) r))) (rsi_rs close period)"
  by (simp add: calculate_rsi_def rsi_rs_def Let_def)

lemma length_rsi_rs [simp]: "length (rsi_rs close period) = length close"
  by (simp add: rsi_rs_def rsi_gain_def rsi_loss_def)

lemma rsi_rs_nth:
  "i < length close \<Longrightarrow>
   rsi_rs close period ! i = fl_div (rsi_gain close period ! i) (rsi_loss close period ! i)"
  by (simp add: rsi_rs_def rsi_gain_def rsi_loss_def)

text \<open>
  Claim C3, as amended. Nothing guards the division in \<open>rs = gain / loss\<close>. At an index
  with a full window where the average loss is zero: if the average gain is not zero,
  RS is an infinity and RSI, mapped from it by \<open>100 - 100 / (1 + rs)\<close>, is exactly 100
  (the mapping sends either infinity to 100: this model has no signed zero and gives
  plus infinity, the code's zero loss is the negated zero and gives minus infinity); if
  the average gain is zero too, RS is NaN and RSI is NaN.
\<close>

theorem rsi_zero_loss:
  assumes "i < length cs" and "1 \<le> p" and "p \<le> i + 1"
    and "rsi_loss (map Fin cs) p ! i = Fin 0"
  shows "calculate_rsi (map Fin cs) p ! i =
           fl_sub (Fin 100) (fl_div (Fin 100) (fl_add (Fin 1) (rsi_rs (map Fin cs) p ! i))) \<and>
         (rsi_gain (map Fin cs) p ! i \<noteq> Fin 0 \<longrightarrow>
            (rsi_rs (map Fin cs) p ! i = PInf \<or> rsi_rs (map Fin cs) p ! i = NInf) \<and>
            calculate_rsi (map Fin cs) p ! i = Fin 100) \<and>
         (rsi_gain (map Fin cs) p ! i = Fin 0 \<longrightarrow>
            rsi_rs (map Fin cs) p ! i = NaN \<and> calculate_rsi (map Fin cs) p ! i = NaN) \<and>
         fl_sub (Fin 100) (fl_div (Fin 100) (fl_add (Fin 1) PInf)) = Fin 100 \<and>
         fl_sub (Fin 100) (fl_div (Fin 100) (fl_add (Fin 1) NInf)) = Fin 100 \<and>
         fl_sub (Fin 100) (fl_div (Fin 100) (fl_add (Fin 1) NaN)) = NaN"
proof -
  from rsi_gain_nonneg [OF assms(1,3)] obtain G where
    g: "0 \<le> G" "rsi_gain (map Fin cs) p ! i = Fin G" by blast
  have len: "i < length (map Fin cs)" using assms(1) by simp
  have rs: "rsi_rs (map Fin cs) p ! i = fl_div (Fin G) (Fin 0)"
    unfolding rsi_rs_nth [OF len] assms(4) g(2) ..
  have m: "calculate_rsi (map Fin cs) p ! i =
           fl_sub (Fin 100) (fl_div (Fin 100) (fl_add (Fin 1) (rsi_rs (map Fin cs) p ! i)))"
    unfolding calculate_rsi_rs using len by simp
  show ?thesis
    unfolding m unfolding rs g(2) using g(1)
    by (auto simp add: fl_sub_def)
qed

theorem rsi_zero_loss_witness:
  "rsi_loss (map Fin [1, 2, 3]) 2 ! 2 = Fin 0 \<and>
   rsi_gain (map Fin [1, 2, 3]) 2 ! 2 = Fin 1 \<and>
   (rsi_rs (map Fin [1, 2, 3]) 2 ! 2 = PInf \<or> rsi_rs (map Fin [1, 2, 3]) 2 ! 2 = NInf) \<and>
   calculate_rsi (map Fin [1, 2, 3]) 2 ! 2 = Fin 100"
proof -
  have u: "[0 ..< 3] = [0, 1, 2]" by (simp add: upt_rec)
  have l: "rsi_loss (map Fin [1, 2, 3]) 2 ! 2 = Fin 0"
    using rsi_loss_nth [of 2 "[1, 2, 3]" 2] by (simp add: losses_def u mean_list_def)
  have g: "rsi_gain (map Fin [1, 2, 3]) 2 ! 2 = Fin 1"
    using rsi_gain_nth [of 2 "[1, 2, 3]" 2] by (simp add: gains_def u mean_list_def)
  have "(2::nat) < length [1, 2, 3 :: real]" "(1::nat) \<le> 2" "(2::nat) \<le> 2 + 1" by simp_all
  from rsi_zero_loss [OF this l] g l show ?thesis by fastforce
qed

text \<open>
  Claim C3 as stated fails: on fifteen equal closes the average loss at index 14 is
  zero, RS is NaN and RSI is NaN, not 100.
\<close>

theorem rsi_flat_counterexample:
  "rsi_loss (map Fin (replicate 15 100)) 14 ! 14 = Fin 0 \<and>
   rsi_rs (map Fin (replicate 15 100)) 14 ! 14 = NaN \<and>
   calculate_rsi (map Fin (replicate 15 100)) 14 ! 14 = NaN"
  using rsi_flat [of 14 15 14 100] rsi_rs_nth [of 14 "replicate 15 (Fin 100)" 14] by simp

section \<open>The scoring engine never raises\<close>

lemma short_df_cols:
  "BB_Position short_df = [Fin 90]" "ATR_Percent short_df = [Fin 1]"
  by (simp_all add: short_df_def empty_df_def)

lemma iloc_short: "int (length xs) < k \<Longrightarrow> iloc xs (- k) = None"
  by (simp add: iloc_def Let_def)

lemma trend_alignment_short:
  assumes a: "calculate_all_indicators bars = Some a" and ne: "bars \<noteq> []"
    and short: "length bars < 200"
  shows "score_trend_alignment a =
        ma_slopes (EMA_20_slope a ! (length bars - 1)) (SMA_50_slope a ! (length bars - 1))
                  (SMA_200_slope a ! (length bars - 1))"
proof -
  note f = engine_fields [OF a]
  from engine_aligned [OF a] have len:
    "length (Close a) = length bars" "length (EMA_20 a) = length bars"
    "length (SMA_50 a) = length bars" "length (SMA_200 a) = length bars"
    "length (EMA_20_slope a) = length bars" "length (SMA_50_slope a) = length bars"
    "length (SMA_200_slope a) = length bars"
    by (simp_all add: aligned_def)
  define k where "k = length bars - 1"
  from ne short have k: "k < length bars" "k + 1 < 200" by (simp_all add: k_def)
  have nan: "SMA_200 a ! k = NaN"
    unfolding f(7) rolling_mean_def using k by (simp add: nth_rolling_early)
  have il: "iloc col (- 1) = Some (col ! k)" if "length col = length bars" for col :: "fl list"
  proof -
    from that ne have "col \<noteq> []" by auto
    from iloc_minus1 [OF this] that show ?thesis by (simp add: k_def)
  qed
  have pp: "price_position c e s (SMA_200 a ! k) = 0" for c e s
    by (simp add: nan price_position_def notna_def)
  have md: "ma_divergence e s (SMA_200 a ! k) = 0" for e s
    by (simp add: nan ma_divergence_def notna_def)
  have "trend_alignment_body a =
        Inr (ma_slopes (EMA_20_slope a ! k) (SMA_50_slope a ! k) (SMA_200_slope a ! k))"
    unfolding trend_alignment_body_def attempt_def Let_def
      il [OF len(1)] il [OF len(2)] il [OF len(3)] il [OF len(4)] il [OF len(5)]
      il [OF len(6)] il [OF len(7)]
    by (simp add: pp md)
  then show ?thesis
    by (simp add: score_trend_alignment_def except_log_def k_def)
qed

lemma six_bars_close: "close_col six_bars = map Fin [10, 20, 20, 20, 20, 20]"
  by (simp add: close_col_def six_bars_def)

lemma six_bars_trend:
  assumes a: "calculate_all_indicators six_bars = Some a"
  shows "SMA_50_slope a ! 5 = NaN" and "SMA_200_slope a ! 5 = NaN"
    and "fl_gt (EMA_20_slope a ! 5) (Fin 2)" and "score_trend_alignment a = 3"
proof -
  note f = engine_fields [OF a]
  have n: "length six_bars = 6" by (simp add: six_bars_def)
  show s50: "SMA_50_slope a ! 5 = NaN"
    unfolding f(9) by (simp add: n nth_scale nth_pct_change rolling_mean_def nth_rolling_early fl_sub_def)
  show s200: "SMA_200_slope a ! 5 = NaN"
    unfolding f(10) by (simp add: n nth_scale nth_pct_change rolling_mean_def nth_rolling_early fl_sub_def)
  have e: "ewm_values (2 / 21) (close_col six_bars) =
           map Fin (ema (2 / 21) [10, 20, 20, 20, 20, 20])"
    unfolding six_bars_close by (rule ewm_values_Fin)
  show e20: "fl_gt (EMA_20_slope a ! 5) (Fin 2)"
    unfolding f(8) e
    by (simp add: nth_scale nth_pct_change ema_def fl_sub_def fl_gt_def)
  have ne: "six_bars \<noteq> []" and sh: "length six_bars < 200" and k: "length six_bars - 1 = 5"
    using n by auto
  have
    "score_trend_alignment a = ma_slopes (EMA_20_slope a ! 5) (SMA_50_slope a ! 5) (SMA_200_slope a ! 5)"
    using trend_alignment_short [OF a ne sh] unfolding k .
  then show "score_trend_alignment a = 3"
    using e20 by (simp add: s50 s200 ma_slopes_def notna_def)
qed

lemma empty_first_read:
  "Close df = [] \<Longrightarrow> score_trend_alignment df = 0"
  "Close df = [] \<Longrightarrow> score_price_action_breakouts polyfit df = 0"
  "Close df = [] \<Longrightarrow> score_ichimoku df = 0"
  "ADX df = [] \<Longrightarrow> score_momentum_strength df = 0"
  "Vol_Ratio df = [] \<Longrightarrow> score_volume_liquidity df = 0"
  "BB_Position df = [] \<Longrightarrow> score_volatility_risk df = 0"
  by (simp_all add: score_trend_alignment_def trend_alignment_body_def
      score_price_action_breakouts_def price_action_breakouts_body_def
      score_ichimoku_def ichimoku_body_def score_momentum_strength_def
      momentum_strength_body_def score_volume_liquidity_def volume_liquidity_body_def
      score_volatility_risk_def volatility_risk_body_def
      attempt_def except_log_def rolling_mean_def rolling_def)

lemma volatility_short:
  assumes "BB_Position df \<noteq> []" and "length (ATR_Percent df) < 10"
  shows "score_volatility_risk df = bb_points (BB_Position df ! (length (BB_Position df) - 1))"
proof -
  have "iloc (ATR_Percent df) (- 10) = None"
    using assms(2) by (simp add: iloc_short)
  then show ?thesis
    unfolding score_volatility_risk_def volatility_risk_body_def iloc_minus1 [OF assms(1)]
    by (cases "iloc (ATR_Percent df) (- 1)") (simp_all add: attempt_def except_log_def)
qed

lemma nan_table_trend:
  "price_position NaN e20 s50 s200 = 0 \<and> price_position c NaN s50 s200 = 0 \<and>
   price_position c e20 NaN s200 = 0 \<and> price_position c e20 s50 NaN = 0 \<and>
   ma_slopes NaN sl50 sl200 = 0 \<and>
   ma_slopes sl20 NaN sl200 = (if fl_gt sl20 (Fin 2) then 3 else 0) \<and>
   ma_slopes sl20 sl50 NaN =
     (if fl_gt sl20 (Fin 2) \<and> fl_gt sl50 (Fin 2) then 6
      else if fl_gt sl20 (Fin 2) then 3 else 0) \<and>
   ma_divergence NaN s50 s200 = 0 \<and> ma_divergence e20 NaN s200 = 0 \<and>
   ma_divergence e20 s50 NaN = 0"
  by (simp add: price_position_def ma_slopes_def ma_divergence_def notna_def)

lemma nan_table_momentum:
  "adx_points NaN = 0 \<and> di_points NaN rising = 0 \<and> rsi_points NaN = 0 \<and>
   roc_points NaN = 0 \<and>
   macd_points NaN sg h hm = 0 \<and> macd_points m NaN h hm = 0 \<and>
   macd_points m sg NaN hm = (if fl_gt m sg then 4 else 0) \<and>
   macd_points m sg h NaN =
     (if fl_gt m sg \<and> fl_gt h (Fin 0) then 6 else if fl_gt m sg then 4 else 0)"
  by (cases m; cases sg)
     (simp_all add: adx_points_def di_points_def rsi_points_def roc_points_def
      macd_points_def notna_def)

lemma nan_table_volume:
  "vol_surge_points NaN = 0 \<and>
   obv_points NaN oe oh = 0 \<and> obv_points ob NaN oh = 0 \<and>
   obv_points ob oe NaN =
     (if notna ob \<and> notna oe then (if fl_gt ob oe then 4 else 2) else 0) \<and>
   vol_price_points NaN pt = (if fl_gt pt (Fin 1) then 3 else 0) \<and>
   vol_price_points vt NaN = (if fl_gt vt (Fin 1) then 3 else 0)"
  by (simp add: vol_surge_points_def obv_points_def vol_price_points_def notna_def)

lemma nan_table_price_action:
  "consecutive_rises (NaN # xs) = 0 \<and> consecutive_rises (x # NaN # xs) = 0 \<and>
   breakout_points NaN h52 h4 h2 vr = 0 \<and>
   breakout_points c NaN h4 h2 vr =
     (if fl_ge c (fl_mul h4 (Fin 0.995)) then 7
      else if fl_ge c (fl_mul h2 (Fin 0.995)) then 5 else 0) \<and>
   breakout_points c h52 NaN h2 vr =
     (if fl_ge c (fl_mul h52 (Fin 0.995)) \<and> fl_gt vr (Fin 150) then 8
      else if fl_ge c (fl_mul h2 (Fin 0.995)) then 5 else 0) \<and>
   breakout_points c h52 h4 NaN vr =
     (if fl_ge c (fl_mul h52 (Fin 0.995)) \<and> fl_gt vr (Fin 150) then 8
      else if fl_ge c (fl_mul h4 (Fin 0.995)) then 7 else 0) \<and>
   breakout_points c h52 h4 h2 NaN =
     (if fl_ge c (fl_mul h4 (Fin 0.995)) then 7
      else if fl_ge c (fl_mul h2 (Fin 0.995)) then 5 else 0) \<and>
   low_trend_points NaN = 3"
  by (cases xs) (simp_all add: breakout_points_tiers low_trend_points_def)

lemma nan_table_volatility_ichimoku:
  "bb_points NaN = 0 \<and> atr_points NaN ap = 0 \<and> atr_points ac NaN = 0 \<and>
   ichimoku_points NaN kj c = 0 \<and> ichimoku_points tk NaN c = 0 \<and>
   ichimoku_points tk kj NaN = 0"
  by (simp add: bb_points_def atr_points_def ichimoku_points_def notna_def)

text \<open>
  Claim C5, as amended. The scoring engine never raises, whatever frame it is handed:
  \<open>calculate_total_score\<close> always returns a result, whose total is the sum of the six
  category scores and whose label is the label of that total. An exception inside a
  category body is absorbed there and leaves the category at the score reached: a
  category whose first column read fails scores 0, and the volatility category of a
  frame with fewer than ten rows keeps its Bollinger points. Every comparison with an
  undefined (NaN) value is false, so a tier that tests one never fires. A sub-rule
  therefore contributes 0 when an undefined value is tested by its guard or by all of
  its tiers (price position, spacing, ADX, DI spread, RSI, ROC, volume ratio, Bollinger
  position, ATR change, Ichimoku; MACD on an undefined line or signal, OBV on an
  undefined OBV or OBV average, slopes on an undefined EMA20 slope, breakout on an
  undefined close). Otherwise it falls through to the tiers that test defined values
  only and may still award points: the slopes with an SMA slope undefined, MACD with
  the histogram or its momentum undefined, OBV with its 50-row high undefined, the
  breakout with a rolling high or the volume ratio undefined, the volume-price
  confirmation with one ratio undefined; and the low-trend sub-rule awards 3 on an
  undefined slope.
\<close>

theorem scoring_never_raises:
  "(\<exists>r. calculate_total_score polyfit df = Some r \<and>
        total_score r =
          score_trend_alignment df + score_momentum_strength df
          + score_volume_liquidity df + score_price_action_breakouts polyfit df
          + score_volatility_risk df + score_ichimoku df \<and>
        classification r = fst (classify (total_score r))) \<and>
   ((Close df = [] \<longrightarrow>
       score_trend_alignment df = 0 \<and> score_price_action_breakouts polyfit df = 0 \<and>
       score_ichimoku df = 0) \<and>
    (ADX df = [] \<longrightarrow> score_momentum_strength df = 0) \<and>
    (Vol_Ratio df = [] \<longrightarrow> score_volume_liquidity df = 0) \<and>
    (BB_Position df = [] \<longrightarrow> score_volatility_risk df = 0) \<and>
    (BB_Position df \<noteq> [] \<and> length (ATR_Percent df) < 10 \<longrightarrow>
       score_volatility_risk df =
         bb_points (BB_Position df ! (length (BB_Position df) - 1)))) \<and>
   (fl_gt x NaN = False \<and> fl_gt NaN x = False \<and> fl_ge x NaN = False \<and>
    fl_ge NaN x = False \<and> fl_lt x NaN = False \<and> fl_lt NaN x = False \<and>
    fl_le x NaN = False \<and> fl_le NaN x = False) \<and>
   (price_position NaN e20 s50 s200 = 0 \<and> price_position c NaN s50 s200 = 0 \<and>
    price_position c e20 NaN s200 = 0 \<and> price_position c e20 s50 NaN = 0 \<and>
    ma_slopes NaN sl50 sl200 = 0 \<and>
    ma_slopes sl20 NaN sl200 = (if fl_gt sl20 (Fin 2) then 3 else 0) \<and>
    ma_slopes sl20 sl50 NaN =
      (if fl_gt sl20 (Fin 2) \<and> fl_gt sl50 (Fin 2) then 6
       else if fl_gt sl20 (Fin 2) then 3 else 0) \<and>
    ma_divergence NaN s50 s200 = 0 \<and> ma_divergence e20 NaN s200 = 0 \<and>
    ma_divergence e20 s50 NaN = 0) \<and>
   (adx_points NaN = 0 \<and> di_points NaN rising = 0 \<and> rsi_points NaN = 0 \<and>
    roc_points NaN = 0 \<and>
    macd_points NaN sg h hm = 0 \<and> macd_points m NaN h hm = 0 \<and>
    macd_points m sg NaN hm = (if fl_gt m sg then 4 else 0) \<and>
    macd_points m sg h NaN =
      (if fl_gt m sg \<and> fl_gt h (Fin 0) then 6 else if fl_gt m sg then 4 else 0)) \<and>
   (vol_surge_points NaN = 0 \<and>
    obv_points NaN oe oh = 0 \<and> obv_points ob NaN oh = 0 \<and>
    obv_points ob oe NaN =
      (if notna ob \<and> notna oe then (if fl_gt ob oe then 4 else 2) else 0) \<and>
    vol_price_points NaN pt = (if fl_gt pt (Fin 1) then 3 else 0) \<and>
    vol_price_points vt NaN = (if fl_gt vt (Fin 1) then 3 else 0)) \<and>
   (consecutive_rises (NaN # xs) = 0 \<and> consecutive_rises (y # NaN # xs) = 0 \<and>
    breakout_points NaN h52 h4 h2 vr = 0 \<and>
    breakout_points c NaN h4 h2 vr =
      (if fl_ge c (fl_mul h4 (Fin 0.995)) then 7
       else if fl_ge c (fl_mul h2 (Fin 0.995)) then 5 else 0) \<and>
    breakout_points c h52 NaN h2 vr =
      (if fl_ge c (fl_mul h52 (Fin 0.995)) \<and> fl_gt vr (Fin 150) then 8
       else if fl_ge c (fl_mul h2 (Fin 0.995)) then 5 else 0) \<and>
    breakout_points c h52 h4 NaN vr =
      (if fl_ge c (fl_mul h52 (Fin 0.995)) \<and> fl_gt vr (Fin 150) then 8
       else if fl_ge c (fl_mul h4 (Fin 0.995)) then 7 else 0) \<and>
    breakout_points c h52 h4 h2 NaN =
      (if fl_ge c (fl_mul h4 (Fin 0.995)) then 7
       else if fl_ge c (fl_mul h2 (Fin 0.995)) then 5 else 0) \<and>
    low_trend_points NaN = 3) \<and>
   (bb_points NaN = 0 \<and> atr_points NaN ap = 0 \<and> atr_points ac NaN = 0 \<and>
    ichimoku_points NaN kj c = 0 \<and> ichimoku_points tk NaN c = 0 \<and>
    ichimoku_points tk kj NaN = 0)"
proof -
  have total: "\<exists>r. calculate_total_score polyfit df = Some r \<and>
        total_score r =
          score_trend_alignment df + score_momentum_strength df
          + score_volume_liquidity df + score_price_action_breakouts polyfit df
          + score_volatility_risk df + score_ichimoku df \<and>
        classification r = fst (classify (total_score r))"
    by (simp add: calculate_total_score_def Let_def)
  have absorbed: "(Close df = [] \<longrightarrow>
       score_trend_alignment df = 0 \<and> score_price_action_breakouts polyfit df = 0 \<and>
       score_ichimoku df = 0) \<and>
    (ADX df = [] \<longrightarrow> score_momentum_strength df = 0) \<and>
    (Vol_Ratio df = [] \<longrightarrow> score_volume_liquidity df = 0) \<and>
    (BB_Position df = [] \<longrightarrow> score_volatility_risk df = 0) \<and>
    (BB_Position df \<noteq> [] \<and> length (ATR_Percent df) < 10 \<longrightarrow>
       score_volatility_risk df =
         bb_points (BB_Position df ! (length (BB_Position df) - 1)))"
    using empty_first_read [of df] volatility_short [of df] by blast
  have cmp: "fl_gt x NaN = False \<and> fl_gt NaN x = False \<and> fl_ge x NaN = False \<and>
    fl_ge NaN x = False \<and> fl_lt x NaN = False \<and> fl_lt NaN x = False \<and>
    fl_le x NaN = False \<and> fl_le NaN x = False"
    by simp
  show ?thesis
    by (rule conjI, rule total, rule conjI, rule absorbed, rule conjI, rule cmp,
        rule conjI, rule nan_table_trend, rule conjI, rule nan_table_momentum,
        rule conjI, rule nan_table_volume, rule conjI, rule nan_table_price_action,
        rule nan_table_volatility_ichimoku)
qed

theorem scoring_never_raises_witness:
  "Close empty_df = [] \<and> ADX empty_df = [] \<and> Vol_Ratio empty_df = [] \<and>
   BB_Position empty_df = [] \<and>
   score_trend_alignment empty_df = 0 \<and>
   score_price_action_breakouts polyfit_raises empty_df = 0 \<and>
   score_ichimoku empty_df = 0 \<and> score_momentum_strength empty_df = 0 \<and>
   score_volume_liquidity empty_df = 0 \<and> score_volatility_risk empty_df = 0 \<and>
   BB_Position short_df \<noteq> [] \<and> length (ATR_Percent short_df) < 10 \<and>
   score_volatility_risk short_df = 6"
proof -
  have e: "Close empty_df = []" "ADX empty_df = []" "Vol_Ratio empty_df = []"
    "BB_Position empty_df = []"
    by (simp_all add: empty_df_def)
  have s: "BB_Position short_df \<noteq> [] \<and> length (ATR_Percent short_df) < 10"
    by (simp add: short_df_cols)
  have b: "bb_points (BB_Position short_df ! (length (BB_Position short_df) - 1)) = 6"
    by (simp add: short_df_cols bb_points_def notna_def fl_gt_def)
  note t1 = scoring_never_raises [where polyfit = polyfit_raises and df = empty_df,
      THEN conjunct2, THEN conjunct1]
  note t2 = scoring_never_raises [where polyfit = polyfit_raises and df = short_df,
      THEN conjunct2, THEN conjunct1]
  from t1 e have "score_trend_alignment empty_df = 0 \<and>
      score_price_action_breakouts polyfit_raises empty_df = 0 \<and>
      score_ichimoku empty_df = 0 \<and> score_momentum_strength empty_df = 0 \<and>
      score_volume_liquidity empty_df = 0 \<and> score_volatility_risk empty_df = 0"
    by blast
  moreover from t2 s b have "score_volatility_risk short_df = 6" by simp
  ultimately show ?thesis using e s by blast
qed

text \<open>
  Claim C5 as stated fails twice. Handed the empty frame, the scoring engine does not
  fail but returns the total 0 with the label "Weak". And a sub-rule with an undefined
  input can contribute points: the slope sub-rule awards 6 when only the SMA200 slope is
  undefined, the low-trend sub-rule 3 on an undefined slope, and six bars run through
  the indicator engine score 3 on the slopes with both SMA slopes undefined.
\<close>

theorem scoring_counterexample:
  "calculate_total_score polyfit_raises empty_df =
     Some \<lparr> total_score = 0, classification = ''Weak'', color = ''#991b1b'',
            category_scores =
              [(''Trend Alignment'', 0), (''Momentum & Strength'', 0),
               (''Volume & Liquidity'', 0), (''Price Action & Breakouts'', 0),
               (''Volatility & Risk'', 0), (''Ichimoku Cloud'', 0)] \<rparr> \<and>
   ma_slopes (Fin 3) (Fin 3) NaN = 6 \<and>
   low_trend_points NaN = 3 \<and>
   SMA_50_slope (the (calculate_all_indicators six_bars)) ! 5 = NaN \<and>
   SMA_200_slope (the (calculate_all_indicators six_bars)) ! 5 = NaN \<and>
   score_trend_alignment (the (calculate_all_indicators six_bars)) = 3"
proof -
  obtain a where a: "calculate_all_indicators six_bars = Some a"
    using engine_Some by blast
  have "calculate_total_score polyfit_raises empty_df =
     Some \<lparr> total_score = 0, classification = ''Weak'', color = ''#991b1b'',
            category_scores =
              [(''Trend Alignment'', 0), (''Momentum & Strength'', 0),
               (''Volume & Liquidity'', 0), (''Price Action & Breakouts'', 0),
               (''Volatility & Risk'', 0), (''Ichimoku Cloud'', 0)] \<rparr>"
    by (simp add: calculate_total_score_def Let_def scores_of_empty_df classify_def)
  moreover have "ma_slopes (Fin 3) (Fin 3) NaN = 6"
    by (simp add: ma_slopes_def notna_def fl_gt_def)
  moreover have "low_trend_points NaN = 3"
    by (simp add: low_trend_points_def)
  ultimately show ?thesis
    using six_bars_trend [OF a] a by simp
qed

section \<open>A flat series\<close>

lemma map_const_replicate:
  "\<forall>x \<in> set xs. f x = k \<Longrightarrow> map f xs = replicate (length xs) k"
  by (induction xs) simp_all

lemma flat_cols:
  assumes "\<forall>b \<in> set bars. b_close b = c \<and> b_high b = c \<and> b_low b = c \<and> b_volume b = v"
  shows "close_col bars = replicate (length bars) (Fin c)"
    and "high_col bars = replicate (length bars) (Fin c)"
    and "low_col bars = replicate (length bars) (Fin c)"
    and "volume_col bars = replicate (length bars) (Fin (real_of_int v))"
  unfolding close_col_def high_col_def low_col_def volume_col_def
  using assms by (simp_all add: map_const_replicate)

lemma ema_from_flat: "ema_from alpha c (replicate m c) = replicate m c"
proof (induction m)
  case 0
  show ?case by simp
next
  case (Suc m)
  have "alpha * c + (1 - alpha) * c = c" by (simp add: algebra_simps)
  with Suc show ?case by simp
qed

lemma ema_flat: "ema alpha (replicate n c) = replicate n c"
  by (cases n) (simp_all add: ema_def ema_from_flat)

lemma ewm_values_flat: "ewm_values alpha (replicate n (Fin c)) = replicate n (Fin c)"
proof -
  have "ewm_values alpha (map Fin (replicate n c)) = map Fin (ema alpha (replicate n c))"
    by (rule ewm_values_Fin)
  then show ?thesis by (simp add: ema_flat)
qed

lemma map2_replicate: "map2 f (replicate n x) (replicate n y) = replicate n (f x y)"
  by (simp add: zip_replicate)

lemma flat_macd:
  assumes "close_col bars = replicate n (Fin c)"
  shows "macd_col bars = replicate n (Fin 0)"
    and "ewm_values (2 / 10) (macd_col bars) = replicate n (Fin 0)"
    and "hist_col bars = replicate n (Fin 0)"
proof -
  show m: "macd_col bars = replicate n (Fin 0)"
    unfolding macd_col_def assms ewm_values_flat
    by (simp add: map2_replicate fl_sub_def)
  show s: "ewm_values (2 / 10) (macd_col bars) = replicate n (Fin 0)"
    unfolding m by (rule ewm_values_flat)
  show "hist_col bars = replicate n (Fin 0)"
    unfolding hist_col_def s unfolding m
    by (simp add: map2_replicate fl_sub_def)
qed

lemma nth_rolling_flat:
  "i < n \<Longrightarrow> 0 < p \<Longrightarrow>
   rolling_mean p (replicate n (Fin x)) ! i = (if i + 1 < p then NaN else Fin x)"
proof (cases "i + 1 < p")
  case True
  assume "i < n"
  with True show ?thesis by (simp add: rolling_mean_def nth_rolling_early)
next
  case False
  assume i: "i < n" and p: "0 < p"
  have r: "replicate n (Fin x) = map Fin (replicate n x)" by simp
  from False i have m: "min p (n - (i + 1 - p)) = p" by simp
  from False i p show ?thesis
    unfolding rolling_mean_def r
    by (simp add: nth_rolling_Fin m mean_list_replicate del: map_replicate)
qed

lemma nth_rolling_NaN:
  "i < n \<Longrightarrow> 0 < p \<Longrightarrow> rolling_mean p (replicate n NaN) ! i = NaN"
proof (cases "i + 1 < p")
  case True
  assume "i < n"
  with True show ?thesis by (simp add: rolling_mean_def nth_rolling_early)
next
  case False
  assume i: "i < n" and p: "0 < p"
  from False i have m: "min p (n - (i + 1 - p)) = p" by simp
  from p obtain q where q: "p = Suc q" by (cases p) auto
  from False i show ?thesis
    unfolding rolling_mean_def
    by (simp add: nth_rolling m) (simp add: q)
qed

lemma flat_diff1:
  "i < n \<Longrightarrow> diff 1 (replicate n (Fin c)) ! i = (if i = 0 then NaN else Fin 0)"
  by (simp add: nth_diff fl_sub_def)

lemma flat_dm:
  "map2 (\<lambda>h l. if fl_gt h l \<and> fl_gt h (Fin 0) then h else Fin 0)
        (diff 1 (replicate n (Fin c))) (map fl_neg (diff 1 (replicate n (Fin c))))
   = replicate n (Fin 0)"
  "map2 (\<lambda>h l. if fl_gt l h \<and> fl_gt l (Fin 0) then l else Fin 0)
        (diff 1 (replicate n (Fin c))) (map fl_neg (diff 1 (replicate n (Fin c))))
   = replicate n (Fin 0)"
  by (rule nth_equalityI; simp add: nth_diff fl_sub_def fl_gt_def)+

lemma flat_true_range:
  "true_range (replicate n (Fin c)) (replicate n (Fin c)) (replicate n (Fin c))
   = replicate n (Fin 0)"
  by (rule nth_equalityI)
     (simp_all add: true_range_def row_max3_def Let_def nth_shift fl_sub_def nan_max_def
        fl_max2_def)

lemma flat_adx:
  "calculate_adx (replicate n (Fin c)) (replicate n (Fin c)) (replicate n (Fin c)) 14
   = (replicate n NaN, replicate n NaN, replicate n NaN)"
proof -
  have di: "scale 100 (map2 fl_div (rolling_mean 14 (replicate n (Fin 0)))
                                   (rolling_mean 14 (replicate n (Fin 0))))
            = replicate n NaN"
    by (rule nth_equalityI) (simp_all add: nth_scale nth_rolling_flat)
  have dx: "map2 fl_div (scale 100 (map fl_abs (map2 fl_sub (replicate n NaN) (replicate n NaN))))
                        (map2 fl_add (replicate n NaN) (replicate n NaN))
            = replicate n NaN"
    by (rule nth_equalityI) (simp_all add: nth_scale fl_sub_def)
  have adx: "rolling_mean 14 (replicate n NaN) = replicate n NaN"
    by (rule nth_equalityI) (simp_all add: nth_rolling_NaN)
  show ?thesis
    unfolding calculate_adx_def Let_def flat_dm flat_true_range di dx adx ..
qed

lemma fl_sum_replicate:
  "foldl fl_add (Fin a) (replicate m (Fin x)) = Fin (a + real m * x)"
  by (induction m arbitrary: a) (simp_all add: algebra_simps)

lemma series_mean_replicate:
  "0 < m \<Longrightarrow> series_mean (replicate m (Fin x)) = Fin x"
  by (simp add: series_mean_def notna_def fl_sum_def fl_sum_replicate Let_def)

lemma trend_ratio_flat:
  assumes "20 \<le> n"
  shows "trend_ratio (replicate n (Fin x)) = (if x = 0 then NaN else Fin 1)"
proof -
  from assms have a: "iloc_last 10 (replicate n (Fin x)) = replicate 10 (Fin x)"
    by (simp add: iloc_last_def)
  from assms have "n - 10 - (n - 20) = 10" by simp
  with assms have b: "iloc_between 20 10 (replicate n (Fin x)) = replicate 10 (Fin x)"
    by (simp add: iloc_between_def min_def)
  show ?thesis
    unfolding trend_ratio_def a b by (simp add: series_mean_replicate)
qed

lemma flat_roc:
  "10 \<le> i \<Longrightarrow> i < n \<Longrightarrow>
   calculate_roc (replicate n (Fin c)) 10 ! i = (if c = 0 then NaN else Fin 0)"
  by (simp add: calculate_roc_def nth_scale nth_shift fl_sub_def)

lemma flat_momentum:
  assumes a: "calculate_all_indicators bars = Some a"
    and n: "14 \<le> length bars"
    and flat: "\<forall>b \<in> set bars. b_close b = c \<and> b_high b = c \<and> b_low b = c \<and> b_volume b = v"
    and kdef: "k = length bars - 1"
  shows "ADX a ! k = NaN"
    and "DI_Spread a ! k = NaN"
    and "ADX_Rising a ! k = False"
    and "RSI a ! k = NaN"
    and "roc_points (ROC a ! k) = 0"
    and "MACD a ! k = Fin 0"
    and "MACD_Signal a ! k = Fin 0"
    and "score_momentum_strength a = 0"
proof -
  note f = engine_fields [OF a]
  note c = flat_cols [OF flat]
  from n have k: "k < length bars" "13 \<le> k" "10 \<le> k" "3 \<le> k" by (simp_all add: kdef)
  have adx_cols: "ADX a = replicate (length bars) NaN"
    "Plus_DI a = replicate (length bars) NaN" "Minus_DI a = replicate (length bars) NaN"
    unfolding f(17,18,19) c flat_adx by simp_all
  show adx: "ADX a ! k = NaN"
    unfolding adx_cols using k by simp
  show di: "DI_Spread a ! k = NaN"
    unfolding f(20) adx_cols using k by (simp add: fl_sub_def)
  show rising: "ADX_Rising a ! k = False"
    unfolding f(21) adx_cols using k by (simp add: nth_diff fl_sub_def)
  show rsi: "RSI a ! k = NaN"
    unfolding f(11) c using k by (simp add: rsi_flat)
  have "ROC a ! k = (if c = 0 then NaN else Fin 0)"
    unfolding f(12) c using k by (simp add: flat_roc)
  then show roc: "roc_points (ROC a ! k) = 0"
    by (simp add: roc_points_def notna_def fl_gt_def)
  note m = flat_macd [OF c(1)]
  show macd: "MACD a ! k = Fin 0"
    unfolding f(13) m(1) using k by simp
  show sig: "MACD_Signal a ! k = Fin 0"
    unfolding f(14) m(2) using k by simp
  from engine_aligned [OF a] have len:
    "length (ADX a) = length bars" "length (DI_Spread a) = length bars"
    "length (ADX_Rising a) = length bars" "length (RSI a) = length bars"
    "length (ROC a) = length bars" "length (MACD a) = length bars"
    "length (MACD_Signal a) = length bars" "length (MACD_Hist a) = length bars"
    "length (Hist_Momentum a) = length bars"
    by (simp_all add: aligned_def)
  have il: "iloc col (- 1) = Some (col ! k)"
    if "length col = length bars" for col :: "'x list"
  proof -
    from that k have "col \<noteq> []" by auto
    from iloc_minus1 [OF this] that show ?thesis by (simp add: kdef)
  qed
  have p: "adx_points NaN = 0" "di_points NaN False = 0" "rsi_points NaN = 0"
    "macd_points (Fin 0) (Fin 0) h hm = 0" for h hm
    by (simp_all add: adx_points_def di_points_def rsi_points_def macd_points_def
        notna_def fl_gt_def)
  have "momentum_strength_body a = Inr 0"
    unfolding momentum_strength_body_def attempt_def Let_def
      il [OF len(1)] il [OF len(2)] il [OF len(3)] il [OF len(4)] il [OF len(5)]
      il [OF len(6)] il [OF len(7)] il [OF len(8)] il [OF len(9)]
      option.case adx di rising rsi roc macd sig p
    by simp
  then show "score_momentum_strength a = 0"
    by (simp add: score_momentum_strength_def except_log_def)
qed

lemma flat_cotrend:
  assumes a: "calculate_all_indicators bars = Some a"
    and n: "20 \<le> length bars"
    and flat: "\<forall>b \<in> set bars. b_close b = c \<and> b_high b = c \<and> b_low b = c \<and> b_volume b = v"
  shows "vol_price_points (trend_ratio (Volume a)) (trend_ratio (Close a)) = 0"
proof -
  note f = engine_fields [OF a]
  note c = flat_cols [OF flat]
  show ?thesis
    unfolding f(1,4) c trend_ratio_flat [OF n]
    by (simp add: vol_price_points_def fl_gt_def)
qed

text \<open>
  Claim C9. For every series of 260 bars with one constant close, equal to the high and
  the low, and one constant volume, the momentum and strength category scores exactly
  0, and the volume-price confirmation (the means of the last ten volumes and closes
  against the means of the ten before) contributes 0 to the volume category.
\<close>

theorem flat_series_scores_zero:
  assumes "calculate_all_indicators bars = Some a"
    and "length bars = 260"
    and "\<forall>b \<in> set bars. b_close b = c \<and> b_high b = c \<and> b_low b = c \<and> b_volume b = v"
  shows "score_momentum_strength a = 0 \<and>
         vol_price_points (trend_ratio (Volume a)) (trend_ratio (Close a)) = 0"
proof -
  from assms(2) have "14 \<le> length bars" "20 \<le> length bars" by simp_all
  with flat_momentum(8) [OF assms(1) _ assms(3) refl] flat_cotrend [OF assms(1) _ assms(3)]
  show ?thesis by blast
qed

theorem flat_series_scores_zero_witness:
  "length flat_bars = 260 \<and>
   map b_close flat_bars = replicate 260 100 \<and> map b_high flat_bars = replicate 260 100 \<and>
   map b_low flat_bars = replicate 260 100 \<and> map b_volume flat_bars = replicate 260 5000 \<and>
   score_momentum_strength (the (calculate_all_indicators flat_bars)) = 0 \<and>
   vol_price_points (trend_ratio (Volume (the (calculate_all_indicators flat_bars))))
     (trend_ratio (Close (the (calculate_all_indicators flat_bars)))) = 0"
proof -
  obtain a where a: "calculate_all_indicators flat_bars = Some a"
    using engine_Some by blast
  have l: "length flat_bars = 260" by (simp add: flat_bars_def)
  have f: "\<forall>b \<in> set flat_bars. b_close b = 100 \<and> b_high b = 100 \<and> b_low b = 100 \<and> b_volume b = 5000"
    by (simp add: flat_bars_def)
  have m: "map b_close flat_bars = replicate 260 100" "map b_high flat_bars = replicate 260 100"
    "map b_low flat_bars = replicate 260 100" "map b_volume flat_bars = replicate 260 5000"
    using map_const_replicate [of flat_bars b_close 100]
      map_const_replicate [of flat_bars b_high 100]
      map_const_replicate [of flat_bars b_low 100]
      map_const_replicate [of flat_bars b_volume 5000] f l by simp_all
  from flat_series_scores_zero [OF a l f] a l m show ?thesis by simp
qed

section \<open>A fully warmed-up series\<close>


lemma list_all_nth: "list_all P xs \<Longrightarrow> i < length xs \<Longrightarrow> P (xs ! i)"
  by (simp add: list_all_length)












lemma list_all_fin_map [simp]: "list_all is_fin (map Fin xs)"
  by (simp add: list_all_iff)





















end
